theory Spec2Isabelle
  imports Complex_Main "HOL-Library.AList"
begin

section \<open>Python strings\<close>

text \<open>
  A Python \<open>str\<close> is a sequence of code points. The model uses \<open>string\<close> (a
  \<open>char list\<close>) and reads every \<open>char\<close> as the code point of the same number, so it
  covers the strings over U+0000..U+00FF. In UTF-8 a code point below 128 takes one byte
  and the others of this range take two.
\<close>

definition utf8_len :: "string \<Rightarrow> nat" where
  "utf8_len s = sum_list (map (\<lambda>c. if (of_char c :: nat) < 128 then 1 else 2) s)"

primrec startswith :: "string \<Rightarrow> string \<Rightarrow> bool" where
  "startswith [] s = True"
| "startswith (p # ps) s = (case s of [] \<Rightarrow> False | c # cs \<Rightarrow> p = c \<and> startswith ps cs)"

text \<open>\<open>find_aux sub s i\<close>: the first index, counted from \<open>i\<close>, at which \<open>sub\<close> occurs in \<open>s\<close>.\<close>

primrec find_aux :: "string \<Rightarrow> string \<Rightarrow> nat \<Rightarrow> nat option" where
  "find_aux sub [] i = (if sub = [] then Some i else None)"
| "find_aux sub (c # cs) i =
     (if startswith sub (c # cs) then Some i else find_aux sub cs (Suc i))"

text \<open>\<open>s.find(sub, start)\<close>: the lowest index from \<open>start\<close> on, or \<open>-1\<close>.\<close>

definition py_find :: "string \<Rightarrow> string \<Rightarrow> int \<Rightarrow> int" where
  "py_find s sub start =
     (let st = (if start < 0 then max 0 (int (length s) + start) else start) in
      if st > int (length s) then - 1
      else (case find_aux sub (drop (nat st) s) (nat st) of
              None \<Rightarrow> - 1
            | Some i \<Rightarrow> int i))"

primrec rfind_aux :: "string \<Rightarrow> string \<Rightarrow> nat \<Rightarrow> nat option \<Rightarrow> nat option" where
  "rfind_aux sub [] i found = (if sub = [] then Some i else found)"
| "rfind_aux sub (c # cs) i found =
     rfind_aux sub cs (Suc i) (if startswith sub (c # cs) then Some i else found)"

text \<open>\<open>s.rfind(sub)\<close>: the highest index, or \<open>-1\<close>.\<close>

definition py_rfind :: "string \<Rightarrow> string \<Rightarrow> int" where
  "py_rfind s sub = (case rfind_aux sub s 0 None of None \<Rightarrow> - 1 | Some i \<Rightarrow> int i)"

text \<open>\<open>s[:n]\<close>: a negative \<open>n\<close> counts from the end.\<close>

definition py_prefix :: "string \<Rightarrow> int \<Rightarrow> string" where
  "py_prefix s n = (if n < 0 then take (nat (int (length s) + n)) s else take (nat n) s)"

text \<open>\<open>s[i:j]\<close> for indices that are not negative.\<close>

definition py_slice :: "string \<Rightarrow> int \<Rightarrow> int \<Rightarrow> string" where
  "py_slice s i j = take (nat j - nat i) (drop (nat i) s)"

text \<open>
  The characters that \<open>\s\<close> matches in a \<open>str\<close> pattern (those of \<open>str.isspace\<close>),
  below U+0100.
\<close>

definition is_space :: "char \<Rightarrow> bool" where
  "is_space c = ((of_char c :: nat) \<in> {9, 10, 11, 12, 13, 28, 29, 30, 31, 32, 133, 160})"

section \<open>JSON values\<close>

text \<open>
  What \<open>json.loads\<close> returns. Python's \<open>None\<close> is \<open>JNull\<close>, so a function of type
  \<open>Optional[Dict]\<close> returns a \<open>json\<close>. Numbers are taken as reals. A \<open>dict\<close> is an
  association list read through \<open>map_of\<close>.
\<close>

datatype json =
    JNull
  | JBool bool
  | JNum real
  | JStr string
  | JArr "json list"
  | JObj "(string \<times> json) list"

text \<open>Python's truth value, as in \<open>if result:\<close> and \<open>if not x:\<close>.\<close>

fun truthy :: "json \<Rightarrow> bool" where
  "truthy JNull = False"
| "truthy (JBool b) = b"
| "truthy (JNum x) = (x \<noteq> 0)"
| "truthy (JStr s) = (s \<noteq> [])"
| "truthy (JArr xs) = (xs \<noteq> [])"
| "truthy (JObj kvs) = (kvs \<noteq> [])"

section \<open>The repair parser (json\_repair.py)\<close>

text \<open>
  \<open>json.loads\<close> is the standard library's: the functions take it as the parameter
  \<open>loads\<close>, where \<open>None\<close> stands for \<open>JSONDecodeError\<close>. The other exceptions that
  \<open>json.loads\<close> can raise (\<open>RecursionError\<close> on deep nesting, a plain \<open>ValueError\<close>
  on a number with too many digits), which \<open>safe_json_parse\<close> does not catch, have no
  value of \<open>loads\<close>: the model covers the texts on which \<open>json.loads\<close> decodes or raises
  \<open>JSONDecodeError\<close>.
\<close>

definition repair_truncated_json :: "string \<Rightarrow> string option" where
  \<open>repair_truncated_json json_str =
     (let platforms_end = py_rfind json_str ''"summary"'' in
      if platforms_end = - 1 then None
      else
        let summary_end = py_find json_str ''"'' (platforms_end + int (length ''"summary": "'')) in
        if summary_end = - 1 then None
        else
          let summary_end2 = py_find json_str ''"'' (summary_end + 1) in
          if summary_end2 = - 1 then None
          else Some (py_prefix json_str (summary_end2 + 1)
                 @ ''\<newline>    }''
                 @ ''\<newline>  }''
                 @ '',\<newline>  "specifications": {},''
                 @ ''\<newline>  "summarized_review": {"pros": [], "cons": [], "verdict": "Partial data - processing incomplete"},''
                 @ ''\<newline>  "citations": {}''
                 @ ''\<newline>}''))\<close>

text \<open>
  The loop \<open>while len(truncated.encode('utf-8')) > max_bytes: truncated = truncated[:-1]\<close>.
  \<open>None\<close> is the loop that does not end.
\<close>

partial_function (option) truncate_loop :: "int \<Rightarrow> string \<Rightarrow> string option" where
  "truncate_loop max_bytes truncated =
     (if int (utf8_len truncated) > max_bytes
      then truncate_loop max_bytes (py_prefix truncated (- 1))
      else Some truncated)"

text \<open>Step 3: \<open>re.sub(r'[\x00-\x1F\x7F]', '', json_str)\<close>.\<close>

definition is_control :: "char \<Rightarrow> bool" where
  "is_control c = ((of_char c :: nat) \<le> 31 \<or> (of_char c :: nat) = 127)"

definition remove_control :: "string \<Rightarrow> string" where
  "remove_control s = filter (\<lambda>c. \<not> is_control c) s"

text \<open>
  Step 4: \<open>re.sub(r',\s*([}\]])', r'\1', json_str)\<close>, scanning from the left: a comma,
  the white space after it and a closing brace or bracket become the brace or bracket.
\<close>

function remove_trailing_commas :: "string \<Rightarrow> string" where
  "remove_trailing_commas [] = []"
| "remove_trailing_commas (c # cs) =
     (if c = CHR '',''
      then (case dropWhile is_space cs of
              [] \<Rightarrow> c # remove_trailing_commas cs
            | d # ds \<Rightarrow>
                if d = CHR ''}'' \<or> d = CHR '']''
                then d # remove_trailing_commas ds
                else c # remove_trailing_commas cs)
      else c # remove_trailing_commas cs)"
  by pat_completeness auto
termination
proof (relation "measure length")
  fix c :: char and cs d ds
  assume "dropWhile is_space cs = d # ds"
  then have "length (d # ds) \<le> length cs"
    by (metis length_dropWhile_le)
  then show "(ds, c # cs) \<in> measure length" by simp
qed auto

text \<open>Steps 3 to 5 on the extracted text.\<close>

definition clean_and_load :: "(string \<Rightarrow> json option) \<Rightarrow> string \<Rightarrow> json" where
  "clean_and_load loads json_str =
     (case loads (remove_trailing_commas (remove_control json_str)) of
        None \<Rightarrow> JNull
      | Some v \<Rightarrow> v)"

text \<open>Steps 2 to 5, on the text that step 1 has cut to \<open>max_bytes\<close>.\<close>

definition extract_and_load :: "(string \<Rightarrow> json option) \<Rightarrow> string \<Rightarrow> json" where
  \<open>extract_and_load loads raw =
     (let first_brace = py_find raw ''{'' 0;
          last_brace = py_rfind raw ''}'' in
      if first_brace = - 1 then JNull
      else if last_brace = - 1 \<or> first_brace \<ge> last_brace
      then (case repair_truncated_json (drop (nat first_brace) raw) of
              None \<Rightarrow> JNull
            | Some json_str \<Rightarrow> if json_str = [] then JNull else clean_and_load loads json_str)
      else clean_and_load loads (py_slice raw first_brace (last_brace + 1)))\<close>

text \<open>
  \<open>try_repair_to_json\<close>. The result \<open>None\<close> is a call that does not return;
  \<open>Some JNull\<close> is the return value \<open>None\<close>.
\<close>

definition try_repair_to_json :: "(string \<Rightarrow> json option) \<Rightarrow> string \<Rightarrow> int \<Rightarrow> json option" where
  "try_repair_to_json loads raw max_bytes =
     (if raw = [] then Some JNull
      else if int (utf8_len raw) > max_bytes
      then map_option (extract_and_load loads) (truncate_loop max_bytes (py_prefix raw max_bytes))
      else Some (extract_and_load loads raw))"

text \<open>
  \<open>re.findall(r'```(?:json)?\s*(\{.*?\})\s*```', text, re.DOTALL)\<close>.
  \<open>lazy_body acc s\<close> is the lazy \<open>.*?\}\s*```\<close>: the first closing brace that white
  space and a fence follow; it gives the group's text and the text after the match.
\<close>

primrec lazy_body :: "string \<Rightarrow> string \<Rightarrow> (string \<times> string) option" where
  "lazy_body acc [] = None"
| "lazy_body acc (c # cs) =
     (if c = CHR ''}'' \<and> startswith ''```'' (dropWhile is_space cs)
      then Some (rev (c # acc), drop 3 (dropWhile is_space cs))
      else lazy_body (c # acc) cs)"

definition match_fence :: "string \<Rightarrow> (string \<times> string) option" where
  "match_fence s =
     (if startswith ''```'' s
      then (let r1 = drop 3 s;
                r2 = (if startswith ''json'' r1 then drop 4 r1 else r1)
            in case dropWhile is_space r2 of
                 [] \<Rightarrow> None
               | b # body \<Rightarrow> if b = CHR ''{'' then lazy_body [b] body else None)
      else None)"

function findall_json_blocks :: "string \<Rightarrow> string list" where
  "findall_json_blocks [] = []"
| "findall_json_blocks (c # cs) =
     (case match_fence (c # cs) of
        Some (g, rest) \<Rightarrow> g # findall_json_blocks rest
      | None \<Rightarrow> findall_json_blocks cs)"
  by pat_completeness auto
termination
proof (relation "measure length")
  fix c :: char and cs x2 g rest
  assume m: "match_fence (c # cs) = Some x2" and x2: "(g, rest) = x2"
  have lb: "lazy_body acc s = Some (g, rest) \<Longrightarrow> length rest \<le> length s" for acc s
  proof (induction s arbitrary: acc)
    case Nil
    then show ?case by simp
  next
    case (Cons d ds)
    have "length (drop 3 (dropWhile is_space ds)) \<le> length ds"
      using length_dropWhile_le [of is_space ds] by simp
    with Cons show ?case
      by (auto split: if_splits simp: le_Suc_eq)
  qed
  define s where "s = c # cs"
  define r2 where "r2 = (if startswith ''json'' (drop 3 s) then drop 4 (drop 3 s) else drop 3 s)"
  from m x2 have mf: "match_fence s = Some (g, rest)"
    by (simp add: s_def)
  then have sw: "startswith ''```'' s"
    by (simp add: match_fence_def split: if_splits)
  from mf sw obtain body where db: "dropWhile is_space r2 = CHR ''{'' # body"
    and l: "lazy_body [CHR ''{''] body = Some (g, rest)"
    by (auto simp: match_fence_def r2_def Let_def split: list.splits if_splits)
  have "length rest \<le> length body"
    using l by (rule lb)
  also have "length body < length (dropWhile is_space r2)"
    by (simp add: db)
  also have "\<dots> \<le> length r2"
    by (rule length_dropWhile_le)
  also have "\<dots> \<le> length s"
    by (simp add: r2_def)
  finally show "(rest, c # cs) \<in> measure length"
    by (simp add: s_def)
qed auto

text \<open>The loop over the matches: the first one that decodes is returned.\<close>

primrec first_decodable :: "(string \<Rightarrow> json option) \<Rightarrow> string list \<Rightarrow> json option" where
  "first_decodable loads [] = None"
| "first_decodable loads (m # ms) =
     (case loads m of Some v \<Rightarrow> Some v | None \<Rightarrow> first_decodable loads ms)"

definition extract_json_from_markdown :: "(string \<Rightarrow> json option) \<Rightarrow> string \<Rightarrow> json option" where
  "extract_json_from_markdown loads text =
     (if text = [] then Some JNull
      else (case first_decodable loads (findall_json_blocks text) of
              Some v \<Rightarrow> Some v
            | None \<Rightarrow> try_repair_to_json loads text 300000))"

definition safe_json_parse :: "(string \<Rightarrow> json option) \<Rightarrow> string \<Rightarrow> int \<Rightarrow> json option" where
  "safe_json_parse loads raw max_bytes =
     (if raw = [] then Some JNull
      else (case loads raw of
              Some v \<Rightarrow> Some v
            | None \<Rightarrow>
               (case extract_json_from_markdown loads raw of
                  None \<Rightarrow> None
                | Some result \<Rightarrow>
                    if truthy result then Some result
                    else (case try_repair_to_json loads raw max_bytes of
                            None \<Rightarrow> None
                          | Some result2 \<Rightarrow> if truthy result2 then Some result2 else Some JNull))))"

section \<open>The category classifier (adaptive\_llama.py)\<close>

text \<open>
  \<open>str.lower()\<close> on the code points below U+0100: the ASCII capitals and the Latin-1
  capitals U+00C0..U+00DE (without the multiplication sign U+00D7) move up by 32.
\<close>

definition lower_char :: "char \<Rightarrow> char" where
  "lower_char c =
     (let n = (of_char c :: nat) in
      if (65 \<le> n \<and> n \<le> 90) \<or> (192 \<le> n \<and> n \<le> 222 \<and> n \<noteq> 215)
      then char_of (n + 32) else c)"

definition lower :: "string \<Rightarrow> string" where
  "lower s = map lower_char s"

text \<open>\<open>sub in s\<close>.\<close>

definition contains :: "string \<Rightarrow> string \<Rightarrow> bool" where
  "contains sub s = (find_aux sub s 0 \<noteq> None)"

definition category_indicators :: "(string \<times> string list) list" where
  "category_indicators =
     [(''Fragrance'', [''perfume'', ''eau de parfum'', ''eau de toilette'', ''cologne'',
                       ''fragrance'', ''scent'']),
      (''Makeup'', [''foundation'', ''lipstick'', ''mascara'', ''eyeshadow'', ''blush'',
                    ''concealer'', ''powder'', ''makeup'', ''cosmetic'']),
      (''Skincare'', [''serum'', ''moisturizer'', ''cleanser'', ''cream'', ''lotion'',
                      ''essence'', ''toner'', ''treatment'', ''skincare'']),
      (''Tools'', [''brush'', ''sponge'', ''curler'', ''applicator'', ''tool'', ''device'',
                   ''blender''])]"

definition product_text :: "string \<Rightarrow> string \<Rightarrow> string \<Rightarrow> string" where
  "product_text product_name brand description =
     lower (product_name @ '' '' @ brand @ '' '' @ description)"

text \<open>\<open>sum(1 for keyword in keywords if keyword in product_text)\<close>, for every category.\<close>

definition category_scores :: "string \<Rightarrow> (string \<times> nat) list" where
  "category_scores text =
     map (\<lambda>(category, keywords). (category, length (filter (\<lambda>keyword. contains keyword text) keywords)))
       category_indicators"

text \<open>
  \<open>max(scores, key=scores.get)\<close>: Python's \<open>max\<close> goes through the keys in the order
  of the dictionary and replaces its candidate only by a key with a strictly greater
  score, so the first of the best keys is returned.
\<close>

primrec max_by_score :: "(string \<times> nat) list \<Rightarrow> string \<times> nat \<Rightarrow> string \<times> nat" where
  "max_by_score [] best = best"
| "max_by_score (x # xs) best = max_by_score xs (if snd x > snd best then x else best)"

text \<open>\<open>max(scores.values())\<close>.\<close>

definition max_score :: "(string \<times> nat) list \<Rightarrow> nat" where
  "max_score scores = foldr max (map snd scores) 0"

definition detect_product_category :: "string \<Rightarrow> string \<Rightarrow> string \<Rightarrow> string" where
  "detect_product_category product_name brand description =
     (let scores = category_scores (product_text product_name brand description) in
      if max_score scores > 0
      then (case scores of [] \<Rightarrow> ''Makeup'' | x # xs \<Rightarrow> fst (max_by_score xs x))
      else ''Makeup'')"

section \<open>The schema of the summary (models.py)\<close>

record platform_insights =
  retail_consensus :: "string option"
  influencer_consensus :: "string option"
  expert_consensus :: "string option"

record aspect_scores =
  longevity :: "real option"
  texture :: "real option"
  irritation :: "real option"
  "value" :: "real option"

record summarized_review =
  master_summary :: "string option"
  insights :: "platform_insights option"
  pros :: "string list"
  cons :: "string list"
  scores :: "aspect_scores option"
  verdict :: string

datatype validation_error =
    TooLong string
  | TooShort string
  | TooFewItems string
  | TooManyItems string
  | OutOfRange string
  | ValueError string

text \<open>\<open>Field(None, max_length=n)\<close> on an optional text.\<close>

definition check_max_length :: "string \<Rightarrow> nat \<Rightarrow> string option \<Rightarrow> validation_error list" where
  "check_max_length field n v =
     (case v of None \<Rightarrow> [] | Some s \<Rightarrow> if length s > n then [TooLong field] else [])"

text \<open>\<open>Field(None, ge=0, le=1)\<close> on an optional number.\<close>

definition check_unit_interval :: "string \<Rightarrow> real option \<Rightarrow> validation_error list" where
  "check_unit_interval field v =
     (case v of None \<Rightarrow> [] | Some x \<Rightarrow> if 0 \<le> x \<and> x \<le> 1 then [] else [OutOfRange field])"

definition check_platform_insights :: "platform_insights option \<Rightarrow> validation_error list" where
  "check_platform_insights v =
     (case v of
        None \<Rightarrow> []
      | Some i \<Rightarrow> check_max_length ''retail_consensus'' 150 (retail_consensus i)
               @ check_max_length ''influencer_consensus'' 150 (influencer_consensus i)
               @ check_max_length ''expert_consensus'' 150 (expert_consensus i))"

definition check_aspect_scores :: "aspect_scores option \<Rightarrow> validation_error list" where
  "check_aspect_scores v =
     (case v of
        None \<Rightarrow> []
      | Some a \<Rightarrow> check_unit_interval ''longevity'' (longevity a)
               @ check_unit_interval ''texture'' (texture a)
               @ check_unit_interval ''irritation'' (irritation a)
               @ check_unit_interval ''value'' (value a))"

text \<open>
  \<open>Field(..., min_items=3, max_items=3)\<close> with the validator
  \<open>if len(v) != 3: raise ValueError('Exactly 3 ... required')\<close>, which runs on a list
  that has passed the field's own bounds.
\<close>

definition check_exactly_three :: "string \<Rightarrow> string list \<Rightarrow> validation_error list" where
  "check_exactly_three field v =
     (if length v < 3 then [TooFewItems field]
      else if length v > 3 then [TooManyItems field]
      else if length v \<noteq> 3 then [ValueError field]
      else [])"

definition check_verdict :: "string \<Rightarrow> validation_error list" where
  "check_verdict v = (if length v < 1 then [TooShort ''verdict''] else [])"

text \<open>The fields of \<open>SummarizedReview\<close> other than \<open>pros\<close> and \<open>cons\<close>.\<close>

definition other_field_errors :: "summarized_review \<Rightarrow> validation_error list" where
  "other_field_errors r =
     check_max_length ''master_summary'' 300 (master_summary r)
     @ check_platform_insights (insights r)
     @ check_aspect_scores (scores r)
     @ check_verdict (verdict r)"

definition summarized_review_errors :: "summarized_review \<Rightarrow> validation_error list" where
  "summarized_review_errors r =
     check_max_length ''master_summary'' 300 (master_summary r)
     @ check_platform_insights (insights r)
     @ check_exactly_three ''pros'' (pros r)
     @ check_exactly_three ''cons'' (cons r)
     @ check_aspect_scores (scores r)
     @ check_verdict (verdict r)"

text \<open>Building a \<open>SummarizedReview\<close>: the errors are raised together, or the model is made.\<close>

definition validate_summarized_review :: "summarized_review \<Rightarrow> validation_error list + summarized_review" where
  "validate_summarized_review r =
     (case summarized_review_errors r of [] \<Rightarrow> Inr r | e # es \<Rightarrow> Inl (e # es))"

section \<open>The snapshot (models.py)\<close>

text \<open>
  The validated models that the store reads. Fields that share a name in the source
  (\<open>url\<close>, \<open>rating\<close>, \<open>count\<close>, \<open>size\<close>) carry the name of their model in front.
  A \<open>float\<close> is taken as a real number.
\<close>

record price =
  amount :: "real option"
  currency :: "string option"
  unit_price :: "string option"
  availability :: "string option"
  promo :: "string option"

record rating =
  average :: "real option"
  rating_count :: "int option"
  breakdown :: "(string \<times> real) list option"

record review_snippet =
  author :: "string option"
  review_rating :: "real option"
  title :: "string option"
  body :: "string option"
  date :: "string option"
  review_url :: "string option"

record platform_data =
  url :: "string option"
  price :: "price option"
  rating :: "rating option"
  reviews :: "review_snippet list option"
  summary :: "string option"

record editorial_quote =
  outlet :: string
  quote :: string
  quote_url :: string

record editorial_block =
  quotes :: "editorial_quote list"

record specifications =
  spec_size :: "string option"
  form :: "string option"
  finish_texture :: "string option"
  spf_pa :: "string option"
  skin_types :: "string list option"
  usage :: "string option"
  ingredients_inci :: "string list option"
  certifications :: "string list option"
  awards :: "string list option"

record product_identity =
  name :: string
  brand :: "string option"
  category :: "string option"
  images :: "string list"

text \<open>
  A value of \<open>platforms\<close>: the union of \<open>PlatformData\<close>, \<open>EditorialBlock\<close>,
  \<open>YoutubeBlock\<close>, \<open>InstagramBlock\<close> and a plain dictionary.
\<close>

datatype platform_value =
    PlatformDataV platform_data
  | EditorialBlockV editorial_block
  | YoutubeBlockV json
  | InstagramBlockV json
  | DictV "(string \<times> json) list"

text \<open>\<open>platforms\<close> and \<open>citations\<close> are dictionaries, kept in the order of their items.\<close>

record root_snapshot =
  identity :: product_identity
  platforms :: "(string \<times> platform_value) list"
  specs :: specifications
  summarized :: summarized_review
  citations :: "(string \<times> string) list"

section \<open>The tables and the statements (db.py)\<close>

text \<open>
  A column that holds the text of \<open>json.dumps(v)\<close> is modelled by the JSON value
  \<open>v\<close> itself. \<open>NOW()\<close> is the time of the transaction.
\<close>

record offer_row =
  o_product_id :: string
  o_retailer :: string
  o_price_amount :: "real option"
  o_price_currency :: "string option"
  o_unit_price :: "string option"
  o_availability :: "string option"
  o_promo :: "string option"
  o_url :: "string option"
  o_scraped_at :: nat

record price_history_row =
  ph_product_id :: string
  ph_retailer :: string
  ph_price_amount :: "real option"
  ph_price_currency :: "string option"
  ph_url :: "string option"
  ph_day :: nat

record rating_row =
  rt_product_id :: string
  rt_retailer :: string
  rt_average :: "real option"
  rt_count :: "int option"
  rt_breakdown :: "(string \<times> real) list option"
  rt_url :: "string option"
  rt_scraped_at :: nat

record review_row =
  rv_product_id :: string
  rv_retailer :: string
  rv_author :: "string option"
  rv_rating :: "real option"
  rv_title :: "string option"
  rv_body :: "string option"
  rv_posted_at :: "string option"
  rv_url :: "string option"

datatype spec_value = PlainText string | JsonText json

record spec_row =
  sp_product_id :: string
  sp_key :: string
  sp_value :: spec_value
  sp_source :: string
  sp_url :: "string option"
  sp_scraped_at :: nat

record summary_row =
  sm_product_id :: string
  sm_pros :: "string list option"
  sm_cons :: "string list option"
  sm_verdict :: "string option"
  sm_aspect_scores :: "aspect_scores option"
  sm_citations :: json
  sm_model_name :: string
  sm_prompt_hash :: string
  sm_updated_at :: nat

record db =
  offers_table :: "offer_row list"
  price_history_table :: "price_history_row list"
  ratings_table :: "rating_row list"
  reviews_table :: "review_row list"
  specs_table :: "spec_row list"
  summaries_table :: "summary_row list"

text \<open>The statements that db.py sends through \<open>cursor.execute\<close> and \<open>execute_values\<close>.\<close>

datatype stmt =
    UpsertOffer offer_row
  | InsertPriceHistory price_history_row
  | UpsertRating rating_row
  | DeleteReviews string string
  | InsertReviews "review_row list"
  | UpsertEditorialSpec spec_row
  | UpsertSpec spec_row
  | UpsertSummary summary_row

text \<open>
  \<open>INSERT ... ON CONFLICT (key) DO UPDATE SET ...\<close>: a row with the key of the new row is
  rewritten by \<open>merge old new\<close>; without such a row the new one is added.
\<close>

definition upsert :: "('r \<Rightarrow> 'r \<Rightarrow> bool) \<Rightarrow> ('r \<Rightarrow> 'r \<Rightarrow> 'r) \<Rightarrow> 'r \<Rightarrow> 'r list \<Rightarrow> 'r list" where
  "upsert same_key merge new rows =
     (if list_ex (\<lambda>old. same_key old new) rows
      then map (\<lambda>old. if same_key old new then merge old new else old) rows
      else rows @ [new])"

text \<open>\<open>INSERT ... ON CONFLICT (key) DO NOTHING\<close>.\<close>

definition insert_if_absent :: "('r \<Rightarrow> 'r \<Rightarrow> bool) \<Rightarrow> 'r \<Rightarrow> 'r list \<Rightarrow> 'r list" where
  "insert_if_absent same_key new rows =
     (if list_ex (\<lambda>old. same_key old new) rows then rows else rows @ [new])"

definition same_offer :: "offer_row \<Rightarrow> offer_row \<Rightarrow> bool" where
  "same_offer a b = (o_product_id a = o_product_id b \<and> o_retailer a = o_retailer b)"

definition same_price_day :: "price_history_row \<Rightarrow> price_history_row \<Rightarrow> bool" where
  "same_price_day a b =
     (ph_product_id a = ph_product_id b \<and> ph_retailer a = ph_retailer b \<and> ph_day a = ph_day b)"

definition same_rating :: "rating_row \<Rightarrow> rating_row \<Rightarrow> bool" where
  "same_rating a b = (rt_product_id a = rt_product_id b \<and> rt_retailer a = rt_retailer b)"

definition same_spec :: "spec_row \<Rightarrow> spec_row \<Rightarrow> bool" where
  "same_spec a b =
     (sp_product_id a = sp_product_id b \<and> sp_key a = sp_key b \<and> sp_source a = sp_source b)"

definition same_summary :: "summary_row \<Rightarrow> summary_row \<Rightarrow> bool" where
  "same_summary a b = (sm_product_id a = sm_product_id b)"

text \<open>What a statement does to the tables.\<close>

fun exec_stmt :: "stmt \<Rightarrow> db \<Rightarrow> db" where
  "exec_stmt (UpsertOffer r) d =
     d\<lparr>offers_table := upsert same_offer (\<lambda>old new. new) r (offers_table d)\<rparr>"
| "exec_stmt (InsertPriceHistory r) d =
     d\<lparr>price_history_table := insert_if_absent same_price_day r (price_history_table d)\<rparr>"
| "exec_stmt (UpsertRating r) d =
     d\<lparr>ratings_table := upsert same_rating (\<lambda>old new. new) r (ratings_table d)\<rparr>"
| "exec_stmt (DeleteReviews product_id retailer) d =
     d\<lparr>reviews_table :=
         filter (\<lambda>r. \<not> (rv_product_id r = product_id \<and> rv_retailer r = retailer)) (reviews_table d)\<rparr>"
| "exec_stmt (InsertReviews rs) d = d\<lparr>reviews_table := reviews_table d @ rs\<rparr>"
| "exec_stmt (UpsertEditorialSpec r) d =
     d\<lparr>specs_table := upsert same_spec (\<lambda>old new. new) r (specs_table d)\<rparr>"
| "exec_stmt (UpsertSpec r) d =
     d\<lparr>specs_table :=
         upsert same_spec
           (\<lambda>old new. old\<lparr>sp_value := sp_value new, sp_scraped_at := sp_scraped_at new\<rparr>)
           r (specs_table d)\<rparr>"
| "exec_stmt (UpsertSummary r) d =
     d\<lparr>summaries_table := upsert same_summary (\<lambda>old new. new) r (summaries_table d)\<rparr>"

text \<open>
  The world outside the program: whether a connection can be had, which statements the
  database refuses in which state, whether the commit is refused, whether
  \<open>conn.rollback()\<close> and \<open>conn.close()\<close> raise (as they do on a connection that has
  been lost), and the clock.
\<close>

record env =
  connect_ok :: bool
  stmt_fails :: "stmt \<Rightarrow> db \<Rightarrow> bool"
  commit_fails :: "db \<Rightarrow> bool"
  rollback_fails :: bool
  close_fails :: bool
  now :: nat
  today :: nat

datatype exn = DatabaseError | InterfaceError

text \<open>
  A step of the transaction gives the new state of the tables as the cursor sees them, or
  an exception together with the state in which it was raised.
\<close>

type_synonym outcome = "(exn \<times> db) + db"

definition execute :: "env \<Rightarrow> stmt \<Rightarrow> db \<Rightarrow> outcome" where
  "execute e s cursor =
     (if stmt_fails e s cursor then Inl (DatabaseError, cursor) else Inr (exec_stmt s cursor))"

text \<open>One step after another: an exception ends the sequence.\<close>

definition and_then :: "outcome \<Rightarrow> (db \<Rightarrow> outcome) \<Rightarrow> outcome" where
  "and_then r f = (case r of Inl x \<Rightarrow> Inl x | Inr cursor \<Rightarrow> f cursor)"

section \<open>The store (db.py)\<close>

text \<open>
  \<open>str.upper()\<close> is modelled on ASCII. A text with a code point from U+0080 on has an
  upper-case form that is none of the ASCII codes \<open>ensure_currency_usd\<close> compares with,
  so such code points are left as they are.
\<close>

definition upper_char :: "char \<Rightarrow> char" where
  "upper_char c =
     (let n = (of_char c :: nat) in if 97 \<le> n \<and> n \<le> 122 then char_of (n - 32) else c)"

definition upper :: "string \<Rightarrow> string" where
  "upper s = map upper_char s"

definition ensure_currency_usd :: "string option \<Rightarrow> string option" where
  "ensure_currency_usd cur =
     (case cur of
        None \<Rightarrow> None
      | Some c \<Rightarrow>
          if c = [] then None
          else let currency_upper = upper c in
            if currency_upper \<in> set [''USD'', ''US$'', ''$'', ''DOLLAR'', ''DOLLARS'']
            then Some ''USD''
            else if currency_upper \<in> set [''EUR'', ''GBP'', ''CAD'', ''AUD'', ''JPY'', ''CNY'']
            then Some currency_upper
            else Some ''USD'')"

definition clamp_float :: "real option \<Rightarrow> real \<Rightarrow> real \<Rightarrow> real option" where
  "clamp_float x lo hi = (case x of None \<Rightarrow> None | Some v \<Rightarrow> Some (max lo (min hi v)))"

text \<open>The class \<open>[\x00-\x08\x0B\x0C\x0E-\x1F\x7F]\<close> of \<open>clean_text\<close>.\<close>

definition is_cleaned_char :: "char \<Rightarrow> bool" where
  "is_cleaned_char c =
     (let n = (of_char c :: nat) in
      n \<le> 8 \<or> n = 11 \<or> n = 12 \<or> (14 \<le> n \<and> n \<le> 31) \<or> n = 127)"

text \<open>\<open>str.strip()\<close>.\<close>

definition strip :: "string \<Rightarrow> string" where
  "strip s = rev (dropWhile is_space (rev (dropWhile is_space s)))"

definition clean_str :: "string \<Rightarrow> string" where
  "clean_str s = (if s = [] then s else strip (filter (\<lambda>c. \<not> is_cleaned_char c) s))"

definition clean_text :: "string option \<Rightarrow> string option" where
  "clean_text s = map_option clean_str s"

text \<open>Python's truth value of an optional number: \<open>None\<close> and zero are false.\<close>

definition truthy_float :: "real option \<Rightarrow> bool" where
  "truthy_float x = (case x of None \<Rightarrow> False | Some v \<Rightarrow> v \<noteq> 0)"

text \<open>The tuple that the loop over \<open>platform_data.reviews[:5]\<close> appends for a review.\<close>

definition review_tuple :: "string \<Rightarrow> string \<Rightarrow> review_snippet \<Rightarrow> review_row" where
  "review_tuple product_id platform review =
     \<lparr>rv_product_id = product_id, rv_retailer = platform,
      rv_author = clean_text (author review),
      rv_rating = (if truthy_float (review_rating review)
                   then clamp_float (review_rating review) 0 5 else None),
      rv_title = clean_text (title review), rv_body = clean_text (body review),
      rv_posted_at = date review, rv_url = review_url review\<rparr>"

definition store_offer :: "env \<Rightarrow> db \<Rightarrow> string \<Rightarrow> string \<Rightarrow> platform_data \<Rightarrow> outcome" where
  "store_offer e cursor product_id platform pd =
     (case price pd of
        None \<Rightarrow> Inr cursor
      | Some p \<Rightarrow>
          and_then
            (execute e (UpsertOffer
               \<lparr>o_product_id = product_id, o_retailer = platform, o_price_amount = amount p,
                o_price_currency = ensure_currency_usd (currency p),
                o_unit_price = unit_price p, o_availability = clean_text (availability p),
                o_promo = clean_text (promo p), o_url = url pd, o_scraped_at = now e\<rparr>) cursor)
            (\<lambda>cursor.
               if amount p \<noteq> None
               then execute e (InsertPriceHistory
                      \<lparr>ph_product_id = product_id, ph_retailer = platform,
                       ph_price_amount = amount p,
                       ph_price_currency = ensure_currency_usd (currency p),
                       ph_url = url pd, ph_day = today e\<rparr>) cursor
               else Inr cursor))"

definition store_rating :: "env \<Rightarrow> db \<Rightarrow> string \<Rightarrow> string \<Rightarrow> platform_data \<Rightarrow> outcome" where
  "store_rating e cursor product_id platform pd =
     (case rating pd of
        None \<Rightarrow> Inr cursor
      | Some r \<Rightarrow>
          execute e (UpsertRating
            \<lparr>rt_product_id = product_id, rt_retailer = platform,
             rt_average = clamp_float (average r) 0 5, rt_count = rating_count r,
             rt_breakdown = (case breakdown r of
                               None \<Rightarrow> None
                             | Some b \<Rightarrow> if b = [] then None else Some b),
             rt_url = url pd, rt_scraped_at = now e\<rparr>) cursor)"

text \<open>
  \<open>if platform_data.reviews:\<close> holds for a list that is there and not empty; only then
  are the old rows deleted and the first five reviews inserted.
\<close>

definition store_reviews :: "env \<Rightarrow> db \<Rightarrow> string \<Rightarrow> string \<Rightarrow> platform_data \<Rightarrow> outcome" where
  "store_reviews e cursor product_id platform pd =
     (case reviews pd of
        None \<Rightarrow> Inr cursor
      | Some rs \<Rightarrow>
          if rs = [] then Inr cursor
          else and_then (execute e (DeleteReviews product_id platform) cursor)
                 (\<lambda>cursor.
                    let reviews_data = map (review_tuple product_id platform) (take 5 rs) in
                    if reviews_data \<noteq> [] then execute e (InsertReviews reviews_data) cursor
                    else Inr cursor))"

definition store_platform_data :: "env \<Rightarrow> db \<Rightarrow> string \<Rightarrow> string \<Rightarrow> platform_data \<Rightarrow> outcome" where
  "store_platform_data e cursor product_id platform pd =
     and_then (store_offer e cursor product_id platform pd)
       (\<lambda>cursor. and_then (store_rating e cursor product_id platform pd)
          (\<lambda>cursor. store_reviews e cursor product_id platform pd))"

text \<open>\<open>quote.outlet.lower().replace(' ', '_')\<close> behind the prefix of the key.\<close>

definition editorial_key :: "string \<Rightarrow> string" where
  "editorial_key o_name =
     ''editorial_quote_'' @ map (\<lambda>c. if c = CHR '' '' then CHR ''_'' else c) (lower o_name)"

primrec store_editorial_quotes :: "env \<Rightarrow> db \<Rightarrow> string \<Rightarrow> editorial_quote list \<Rightarrow> outcome" where
  "store_editorial_quotes e cursor product_id [] = Inr cursor"
| "store_editorial_quotes e cursor product_id (q # qs) =
     and_then
       (execute e (UpsertEditorialSpec
          \<lparr>sp_product_id = product_id, sp_key = editorial_key (outlet q),
           sp_value = JsonText (JObj [(''outlet'', JStr (outlet q)),
                                      (''quote'', JStr (clean_str (quote q))),
                                      (''url'', JStr (quote_url q))]),
           sp_source = ''editorial'', sp_url = Some (quote_url q), sp_scraped_at = now e\<rparr>) cursor)
       (\<lambda>cursor. store_editorial_quotes e cursor product_id qs)"

definition store_editorial_data :: "env \<Rightarrow> db \<Rightarrow> string \<Rightarrow> editorial_block \<Rightarrow> outcome" where
  "store_editorial_data e cursor product_id editorial = 
     store_editorial_quotes e cursor product_id (quotes editorial)"

text \<open>
  The value of a specification as it is stored. A text is \<open>clean_text(str(v))\<close>. A list
  is \<open>clean_text(json.dumps(v))\<close>: \<open>json.dumps\<close> writes every character outside
  U+0020..U+007E as an escape, and its text begins and ends with a bracket, so
  \<open>clean_text\<close> finds nothing to take out and the JSON text of the list is stored.
\<close>

definition text_value :: "string \<Rightarrow> spec_value" where
  "text_value s = PlainText (clean_str s)"

definition list_value :: "string list \<Rightarrow> spec_value" where
  "list_value xs = JsonText (JArr (map JStr xs))"

definition spec_mappings :: "specifications \<Rightarrow> (string \<times> spec_value option) list" where
  "spec_mappings sp =
     [(''size'', map_option text_value (spec_size sp)),
      (''form'', map_option text_value (form sp)),
      (''finish_texture'', map_option text_value (finish_texture sp)),
      (''spf_pa'', map_option text_value (spf_pa sp)),
      (''skin_types'', map_option list_value (skin_types sp)),
      (''usage'', map_option text_value (usage sp)),
      (''ingredients_inci'', map_option list_value (ingredients_inci sp)),
      (''certifications'', map_option list_value (certifications sp)),
      (''awards'', map_option list_value (awards sp))]"

text \<open>
  The loop over \<open>spec_mappings.items()\<close>. \<open>Specifications\<close> has no attribute
  \<open>\<dots>_source\<close>, so the search through \<open>source_priority\<close> finds nothing and the source
  is \<open>aggregated\<close>.
\<close>

primrec store_spec_items :: "env \<Rightarrow> db \<Rightarrow> string \<Rightarrow> (string \<times> spec_value option) list \<Rightarrow> outcome" where
  "store_spec_items e cursor product_id [] = Inr cursor"
| "store_spec_items e cursor product_id (kv # rest) =
     (case snd kv of
        None \<Rightarrow> store_spec_items e cursor product_id rest
      | Some v \<Rightarrow>
          and_then
            (execute e (UpsertSpec
               \<lparr>sp_product_id = product_id, sp_key = fst kv, sp_value = v,
                sp_source = ''aggregated'', sp_url = None, sp_scraped_at = now e\<rparr>) cursor)
            (\<lambda>cursor. store_spec_items e cursor product_id rest))"

definition store_specifications :: "env \<Rightarrow> db \<Rightarrow> string \<Rightarrow> specifications \<Rightarrow> outcome" where
  "store_specifications e cursor product_id sp =
     store_spec_items e cursor product_id (spec_mappings sp)"

text \<open>
  \<open>store_summary\<close> reads the summary only: the citations that it writes are
  \<open>json.dumps({})\<close>.
\<close>

definition summary_tuple :: "env \<Rightarrow> string \<Rightarrow> summarized_review \<Rightarrow> string \<Rightarrow> string \<Rightarrow> summary_row" where
  "summary_tuple e product_id s model_name prompt_hash =
     \<lparr>sm_product_id = product_id,
      sm_pros = (if pros s \<noteq> [] then Some (pros s) else None),
      sm_cons = (if cons s \<noteq> [] then Some (cons s) else None),
      sm_verdict = clean_text (Some (verdict s)),
      sm_aspect_scores = scores s,
      sm_citations = JObj [],
      sm_model_name = model_name, sm_prompt_hash = prompt_hash, sm_updated_at = now e\<rparr>"

definition store_summary :: "env \<Rightarrow> db \<Rightarrow> string \<Rightarrow> summarized_review \<Rightarrow> string \<Rightarrow> string \<Rightarrow> outcome" where
  "store_summary e cursor product_id s model_name prompt_hash =
     execute e (UpsertSummary (summary_tuple e product_id s model_name prompt_hash)) cursor"

text \<open>The loop over \<open>snap.platforms.items()\<close>.\<close>

definition store_platform_entry :: "env \<Rightarrow> db \<Rightarrow> string \<Rightarrow> string \<Rightarrow> platform_value \<Rightarrow> outcome" where
  "store_platform_entry e cursor product_id platform_name v =
     (if platform_name = ''editorial''
      then (case v of
              EditorialBlockV b \<Rightarrow> store_editorial_data e cursor product_id b
            | _ \<Rightarrow> Inr cursor)
      else (case v of
              PlatformDataV pd \<Rightarrow> store_platform_data e cursor product_id platform_name pd
            | _ \<Rightarrow> Inr cursor))"

primrec store_platforms :: "env \<Rightarrow> db \<Rightarrow> string \<Rightarrow> (string \<times> platform_value) list \<Rightarrow> outcome" where
  "store_platforms e cursor product_id [] = Inr cursor"
| "store_platforms e cursor product_id (kv # rest) =
     and_then (store_platform_entry e cursor product_id (fst kv) (snd kv))
       (\<lambda>cursor. store_platforms e cursor product_id rest)"

text \<open>The body of the \<open>try\<close> block before the commit.\<close>

definition store_all :: "env \<Rightarrow> db \<Rightarrow> string \<Rightarrow> root_snapshot \<Rightarrow> string \<Rightarrow> string \<Rightarrow> outcome" where
  "store_all e cursor product_id snap model_name prompt_hash =
     and_then (store_platforms e cursor product_id (platforms snap))
       (\<lambda>cursor. and_then (store_specifications e cursor product_id (specs snap))
          (\<lambda>cursor. store_summary e cursor product_id (summarized snap) model_name prompt_hash))"

text \<open>What a call gives back: it returns a value or an exception leaves it.\<close>

datatype call_result = Returns bool | Raises exn

text \<open>
  The \<open>except\<close> block when there is a connection: \<open>conn.rollback()\<close> is called
  first; its exception leaves the block, otherwise \<open>False\<close> is returned.
\<close>

definition except_block :: "env \<Rightarrow> call_result" where
  "except_block e = (if rollback_fails e then Raises InterfaceError else Returns False)"

text \<open>
  The \<open>finally\<close> block when there is a connection: \<open>conn.close()\<close> is called; its
  exception takes the place of what the body has returned or raised.
\<close>

definition finally_block :: "env \<Rightarrow> call_result \<Rightarrow> call_result" where
  "finally_block e r = (if close_fails e then Raises InterfaceError else r)"

text \<open>
  \<open>store_snapshot\<close> on the database \<open>d\<close>: the database after the call and what the
  call gives back. When \<open>get_db_connection\<close> raises, \<open>conn\<close> is \<open>None\<close>: nothing is
  rolled back or closed and \<open>False\<close> is returned. An exception of a statement or of the
  commit is caught by the \<open>except\<close> block. What a transaction has written and not
  committed is not in the database afterwards, whether the transaction ends by the
  rollback, by the close or with its connection.
\<close>

definition store_snapshot :: "env \<Rightarrow> db \<Rightarrow> string \<Rightarrow> root_snapshot \<Rightarrow> string \<Rightarrow> string
    \<Rightarrow> db \<times> call_result" where
  "store_snapshot e d product_id snap model_name prompt_hash =
     (if \<not> connect_ok e then (d, Returns False)
      else (case store_all e d product_id snap model_name prompt_hash of
              Inl (ex, cursor) \<Rightarrow> (d, finally_block e (except_block e))
            | Inr cursor \<Rightarrow>
                if commit_fails e cursor then (d, finally_block e (except_block e))
                else (cursor, finally_block e (Returns True))))"

text \<open>The rows of the reviews table for a product and a retailer.\<close>

definition reviews_of :: "db \<Rightarrow> string \<Rightarrow> string \<Rightarrow> review_row list" where
  "reviews_of d product_id retailer =
     filter (\<lambda>r. rv_product_id r = product_id \<and> rv_retailer r = retailer) (reviews_table d)"

section \<open>The parallel aggregation (parallel\_llama.py)\<close>

text \<open>
  The chunks are the dictionaries that the fetchers of chunked\_llama.py return; a fetcher
  returns its dictionary or raises. The fetchers call the language model, so they are
  parameters here.
\<close>

datatype exception =
    TransportFailure
  | UnparsableOutput
  | AttributeError
  | TypeError
  | UpdateValueError

record fetchers =
  fetch_retail_chunk :: "string \<Rightarrow> exception + json"
  fetch_brand_editorial_chunk :: "string \<Rightarrow> exception + json"
  fetch_influencer_chunk :: "string \<Rightarrow> exception + json"
  fetch_summary_chunk :: "string \<Rightarrow> json \<Rightarrow> exception + json"

text \<open>\<open>d.get(key, default)\<close>; on a value that is no dictionary it raises.\<close>

definition dict_get :: "json \<Rightarrow> string \<Rightarrow> json \<Rightarrow> exception + json" where
  "dict_get d key dflt =
     (case d of
        JObj kvs \<Rightarrow> Inr (case map_of kvs key of None \<Rightarrow> dflt | Some v \<Rightarrow> v)
      | _ \<Rightarrow> Inl AttributeError)"

text \<open>
  The dictionary \<open>final_data["platforms"]\<close>. \<open>update\<close> can put keys into it that are
  no texts, so its keys are JSON values here; a key that comes from a dictionary of the
  model is a \<open>JStr\<close>.
\<close>

type_synonym py_dict = "(json \<times> json) list"

text \<open>
  What iterating over a value gives: the items of a list, the characters of a text, the
  keys of a dictionary; a number, a truth value and \<open>None\<close> cannot be iterated.
\<close>

fun iterate :: "json \<Rightarrow> exception + json list" where
  "iterate (JArr xs) = Inr xs"
| "iterate (JStr s) = Inr (map (\<lambda>c. JStr [c]) s)"
| "iterate (JObj kvs) = Inr (map (\<lambda>kv. JStr (fst kv)) kvs)"
| "iterate JNull = Inl TypeError"
| "iterate (JBool b) = Inl TypeError"
| "iterate (JNum x) = Inl TypeError"

text \<open>
  A value as a key of a dictionary: a list and a dictionary cannot be hashed; \<open>True\<close>
  and \<open>False\<close> are the keys 1 and 0.
\<close>

fun dict_key :: "json \<Rightarrow> exception + json" where
  "dict_key (JArr xs) = Inl TypeError"
| "dict_key (JObj kvs) = Inl TypeError"
| "dict_key (JBool b) = Inr (JNum (if b then 1 else 0))"
| "dict_key JNull = Inr JNull"
| "dict_key (JNum x) = Inr (JNum x)"
| "dict_key (JStr s) = Inr (JStr s)"

text \<open>
  One element of the sequence that \<open>update\<close> is given: it is turned into a sequence,
  which must have exactly two items, the key and the value.
\<close>

definition update_pair :: "json \<Rightarrow> py_dict \<Rightarrow> exception + py_dict" where
  "update_pair item d =
     (case iterate item of
        Inl ex \<Rightarrow> Inl ex
      | Inr [k, v] \<Rightarrow> (case dict_key k of
                        Inl ex \<Rightarrow> Inl ex
                      | Inr key \<Rightarrow> Inr (AList.update key v d))
      | Inr _ \<Rightarrow> Inl UpdateValueError)"

primrec update_pairs :: "json list \<Rightarrow> py_dict \<Rightarrow> exception + py_dict" where
  "update_pairs [] d = Inr d"
| "update_pairs (item # items) d =
     (case update_pair item d of Inl ex \<Rightarrow> Inl ex | Inr d' \<Rightarrow> update_pairs items d')"

text \<open>
  \<open>d.update(other)\<close>. For a dictionary \<open>other\<close> its items are written one after the
  other: a key that is there keeps its place, a new key goes to the end. Any other value
  is iterated and each of its elements is taken as a pair; Python raises \<open>TypeError\<close>
  for what cannot be iterated or hashed and \<open>ValueError\<close> for an element that has not
  two items.
\<close>

definition dict_update :: "py_dict \<Rightarrow> json \<Rightarrow> exception + py_dict" where
  "dict_update d other =
     (case other of
        JObj kvs \<Rightarrow> Inr (fold (\<lambda>kv acc. AList.update (JStr (fst kv)) (snd kv) acc) kvs d)
      | _ \<Rightarrow> (case iterate other of
                Inl ex \<Rightarrow> Inl ex
              | Inr items \<Rightarrow> update_pairs items d))"

text \<open>The wrappers: an exception of the fetcher becomes the empty dictionary.\<close>

definition fetch_retail_wrapper :: "fetchers \<Rightarrow> string \<Rightarrow> json" where
  "fetch_retail_wrapper fs product_name =
     (case fetch_retail_chunk fs product_name of Inl ex \<Rightarrow> JObj [] | Inr d \<Rightarrow> d)"

definition fetch_editorial_wrapper :: "fetchers \<Rightarrow> string \<Rightarrow> json" where
  "fetch_editorial_wrapper fs product_name =
     (case fetch_brand_editorial_chunk fs product_name of Inl ex \<Rightarrow> JObj [] | Inr d \<Rightarrow> d)"

definition fetch_influencer_wrapper :: "fetchers \<Rightarrow> string \<Rightarrow> json" where
  "fetch_influencer_wrapper fs product_name =
     (case fetch_influencer_chunk fs product_name of Inl ex \<Rightarrow> JObj [] | Inr d \<Rightarrow> d)"

definition parallel_tasks :: "fetchers \<Rightarrow> (string \<times> (string \<Rightarrow> json)) list" where
  "parallel_tasks fs =
     [(''retail'', fetch_retail_wrapper fs),
      (''editorial'', fetch_editorial_wrapper fs),
      (''influencer'', fetch_influencer_wrapper fs)]"

text \<open>
  The loop over \<open>as_completed(future_to_chunk)\<close>: the futures arrive in the order in
  which they complete, given by \<open>completion\<close>, and each result is written into
  \<open>chunk_results\<close> under the name of its chunk. A wrapper does not raise, so
  \<open>future.result\<close> gives its value.
\<close>

definition collect_chunks :: "fetchers \<Rightarrow> string \<Rightarrow> string list \<Rightarrow> (string \<times> json) list" where
  "collect_chunks fs product_name completion =
     fold (\<lambda>chunk_name chunk_results.
             case map_of (parallel_tasks fs) chunk_name of
               None \<Rightarrow> chunk_results
             | Some func \<Rightarrow> AList.update chunk_name (func product_name) chunk_results)
       completion []"

text \<open>One of the three blocks of \<open>_merge_parallel_results\<close> that merge the platforms.\<close>

definition merge_chunk :: "(string \<times> json) list \<Rightarrow> string \<Rightarrow> py_dict \<Rightarrow> exception + py_dict" where
  "merge_chunk chunk_results chunk_name final_platforms =
     (case dict_get (JObj chunk_results) chunk_name (JObj []) of
        Inl ex \<Rightarrow> Inl ex
      | Inr chunk_data \<Rightarrow>
          (case dict_get chunk_data ''platforms'' (JObj []) of
             Inl ex \<Rightarrow> Inl ex
           | Inr chunk_platforms \<Rightarrow>
               if truthy chunk_platforms then dict_update final_platforms chunk_platforms
               else Inr final_platforms))"

text \<open>The dictionary \<open>final_data\<close> with its five keys.\<close>

record final_data =
  fd_product_identity :: json
  fd_platforms :: py_dict
  fd_specifications :: json
  fd_summarized_review :: json
  fd_citations :: json

definition merge_parallel_results :: "(string \<times> json) list \<Rightarrow> json \<Rightarrow> exception + final_data" where
  "merge_parallel_results chunk_results summary_data =
     (case dict_get summary_data ''product_identity'' (JObj []) of
        Inl ex \<Rightarrow> Inl ex
      | Inr ident \<Rightarrow>
     (case dict_get summary_data ''specifications'' (JObj []) of
        Inl ex \<Rightarrow> Inl ex
      | Inr spec \<Rightarrow>
     (case dict_get summary_data ''summarized_review'' (JObj []) of
        Inl ex \<Rightarrow> Inl ex
      | Inr review \<Rightarrow>
     (case dict_get summary_data ''citations'' (JObj []) of
        Inl ex \<Rightarrow> Inl ex
      | Inr cites \<Rightarrow>
     (case merge_chunk chunk_results ''retail'' [] of
        Inl ex \<Rightarrow> Inl ex
      | Inr p1 \<Rightarrow>
     (case merge_chunk chunk_results ''editorial'' p1 of
        Inl ex \<Rightarrow> Inl ex
      | Inr p2 \<Rightarrow>
     (case merge_chunk chunk_results ''influencer'' p2 of
        Inl ex \<Rightarrow> Inl ex
      | Inr p3 \<Rightarrow>
          Inr \<lparr>fd_product_identity = ident, fd_platforms = p3, fd_specifications = spec,
               fd_summarized_review = review, fd_citations = cites\<rparr>)))))))"

text \<open>What \<open>chunk_results.get(name, {})\<close> gives in the source, where \<open>chunk_results\<close> is a dictionary.\<close>

definition chunk_or_empty :: "(string \<times> json) list \<Rightarrow> string \<Rightarrow> json" where
  "chunk_or_empty chunk_results chunk_name =
     (case map_of chunk_results chunk_name of None \<Rightarrow> JObj [] | Some v \<Rightarrow> v)"

definition all_platform_data :: "(string \<times> json) list \<Rightarrow> json" where
  "all_platform_data chunk_results =
     JObj [(''retail'', chunk_or_empty chunk_results ''retail''),
           (''editorial'', chunk_or_empty chunk_results ''editorial''),
           (''influencer'', chunk_or_empty chunk_results ''influencer'')]"

text \<open>
  \<open>fetch_product_snapshot_parallel\<close>: an exception of the summary or of the merge is
  logged and raised again.
\<close>

definition fetch_product_snapshot_parallel :: "fetchers \<Rightarrow> string list \<Rightarrow> string
    \<Rightarrow> exception + final_data" where
  "fetch_product_snapshot_parallel fs completion product_name =
     (let chunk_results = collect_chunks fs product_name completion in
      case fetch_summary_chunk fs product_name (all_platform_data chunk_results) of
        Inl ex \<Rightarrow> Inl ex
      | Inr summary_data \<Rightarrow> merge_parallel_results chunk_results summary_data)"

text \<open>
  The platform entries that a segment supplies: those of the dictionary under
  \<open>platforms\<close> in what its fetcher returned, and none when the fetcher raised.
\<close>

definition segment_platforms :: "exception + json \<Rightarrow> py_dict" where
  "segment_platforms r =
     (case r of
        Inr (JObj kvs) \<Rightarrow>
          (case map_of kvs ''platforms'' of
             Some (JObj ps) \<Rightarrow> map (\<lambda>kv. (JStr (fst kv), snd kv)) ps
           | _ \<Rightarrow> [])
      | _ \<Rightarrow> [])"

text \<open>
  A segment of the expected shape: the fetcher raised, or it returned a dictionary whose
  \<open>platforms\<close>, if there, is a dictionary or a value that is false in Python.
\<close>

definition segment_shape :: "exception + json \<Rightarrow> bool" where
  "segment_shape r =
     (case r of
        Inl ex \<Rightarrow> True
      | Inr (JObj kvs) \<Rightarrow>
          (case map_of kvs ''platforms'' of
             None \<Rightarrow> True
           | Some (JObj ps) \<Rightarrow> True
           | Some v \<Rightarrow> \<not> truthy v)
      | Inr _ \<Rightarrow> False)"

section \<open>Example data\<close>

text \<open>
  A world in which nothing fails, an empty database, and small snapshots.
\<close>

definition env_ok :: env where
  "env_ok = \<lparr>connect_ok = True, stmt_fails = (\<lambda>s d. False), commit_fails = (\<lambda>d. False),
             rollback_fails = False, close_fails = False, now = 0, today = 0\<rparr>"

text \<open>
  A connection that is lost after the first statement: the insertion into the price
  history raises, and so does the rollback.
\<close>

definition env_lost :: env where
  "env_lost =
     \<lparr>connect_ok = True,
      stmt_fails = (\<lambda>s d. case s of InsertPriceHistory r \<Rightarrow> True | _ \<Rightarrow> False),
      commit_fails = (\<lambda>d. False), rollback_fails = True, close_fails = False,
      now = 0, today = 0\<rparr>"

definition empty_db :: db where
  "empty_db = \<lparr>offers_table = [], price_history_table = [], ratings_table = [],
               reviews_table = [], specs_table = [], summaries_table = []\<rparr>"

definition review_of :: "string \<Rightarrow> real \<Rightarrow> review_snippet" where
  "review_of who stars =
     \<lparr>author = Some who, review_rating = Some stars, title = None, body = Some ''fine'',
      date = None, review_url = None\<rparr>"

definition platform_with :: "price option \<Rightarrow> review_snippet list option \<Rightarrow> platform_data" where
  "platform_with p rs = \<lparr>url = None, price = p, rating = None, reviews = rs, summary = None\<rparr>"

definition snapshot_with :: "(string \<times> platform_value) list \<Rightarrow> (string \<times> string) list \<Rightarrow> root_snapshot" where
  "snapshot_with ps cs =
     \<lparr>identity = \<lparr>name = ''Serum'', brand = None, category = None, images = []\<rparr>,
      platforms = ps,
      specs = \<lparr>spec_size = None, form = None, finish_texture = None, spf_pa = None,
               skin_types = None, usage = None, ingredients_inci = None,
               certifications = None, awards = None\<rparr>,
      summarized = \<lparr>master_summary = None, insights = None, pros = [''a'', ''b'', ''c''],
                    cons = [''d'', ''e'', ''f''], scores = None, verdict = ''good''\<rparr>,
      citations = cs\<rparr>"

definition ten_dollars :: price where
  "ten_dollars = \<lparr>amount = Some 10, currency = Some ''USD'', unit_price = None,
                  availability = None, promo = None\<rparr>"

text \<open>
  Fetchers of which the retail one raises: the editorial and the influencer segment and
  the summary return small dictionaries.
\<close>

definition retail_down :: fetchers where
  "retail_down =
     \<lparr>fetch_retail_chunk = (\<lambda>product_name. Inl TransportFailure),
      fetch_brand_editorial_chunk =
        (\<lambda>product_name. Inr (JObj [(''platforms'', JObj [(''editorial'', JStr ''praised'')])])),
      fetch_influencer_chunk =
        (\<lambda>product_name. Inr (JObj [(''platforms'', JObj [(''youtube'', JStr ''liked'')])])),
      fetch_summary_chunk =
        (\<lambda>product_name data. Inr (JObj [(''citations'', JObj [(''vogue'', JStr ''v'')])]))\<rparr>"

text \<open>
  The same, but the influencer segment returns a list under \<open>platforms\<close>, as a language
  model may.
\<close>

definition retail_down_list :: fetchers where
  "retail_down_list =
     \<lparr>fetch_retail_chunk = (\<lambda>product_name. Inl TransportFailure),
      fetch_brand_editorial_chunk =
        (\<lambda>product_name. Inr (JObj [(''platforms'', JObj [(''editorial'', JStr ''praised'')])])),
      fetch_influencer_chunk =
        (\<lambda>product_name. Inr (JObj [(''platforms'', JArr [JStr ''youtube''])])),
      fetch_summary_chunk =
        (\<lambda>product_name data. Inr (JObj [(''citations'', JObj [(''vogue'', JStr ''v'')])]))\<rparr>"

section \<open>Properties of the repair parser\<close>

lemma truncate_loop_exit:
  "truncate_loop max_bytes truncated = Some y \<Longrightarrow> int (utf8_len y) \<le> max_bytes"
proof (rule truncate_loop.raw_induct [where P = "\<lambda>m t y. int (utf8_len y) \<le> m"])
  fix f :: "int \<Rightarrow> string \<Rightarrow> string option" and m t y
  assume ih: "\<And>m t y. f m t = Some y \<Longrightarrow> int (utf8_len y) \<le> m"
    and step: "(if m < int (utf8_len t) then f m (py_prefix t (- 1)) else Some t) = Some y"
  show "int (utf8_len y) \<le> m"
  proof (cases "m < int (utf8_len t)")
    case True
    with step have "f m (py_prefix t (- 1)) = Some y" by simp
    then show ?thesis by (rule ih)
  next
    case False
    with step show ?thesis by simp
  qed
qed

lemma truncate_loop_negative: "max_bytes < 0 \<Longrightarrow> truncate_loop max_bytes truncated = None"
proof (rule ccontr)
  assume neg: "max_bytes < 0" and "truncate_loop max_bytes truncated \<noteq> None"
  then obtain y where "truncate_loop max_bytes truncated = Some y"
    by auto
  then have "int (utf8_len y) \<le> max_bytes"
    by (rule truncate_loop_exit)
  with neg show False by simp
qed

lemma truncate_loop_returns:
  "0 \<le> max_bytes \<Longrightarrow> \<exists>y. truncate_loop max_bytes truncated = Some y"
proof (induction "length truncated" arbitrary: truncated)
  case 0
  then show ?case
    by (subst truncate_loop.simps) (simp add: utf8_len_def)
next
  case (Suc n)
  then have "length (py_prefix truncated (- 1)) = n"
    by (simp add: py_prefix_def)
  with Suc have "\<exists>y. truncate_loop max_bytes (py_prefix truncated (- 1)) = Some y"
    by blast
  then show ?case
    by (subst truncate_loop.simps) simp
qed

text \<open>
  With a byte limit that is not negative the loop ends: \<open>try_repair_to_json\<close> returns
  whenever \<open>json.loads\<close> decodes or raises \<open>JSONDecodeError\<close> on the extracted text
  (the behaviours that \<open>loads\<close> has).
\<close>

lemma try_repair_to_json_returns:
  "0 \<le> max_bytes \<Longrightarrow> \<exists>v. try_repair_to_json loads raw max_bytes = Some v"
  using truncate_loop_returns [of max_bytes "py_prefix raw max_bytes"]
  by (auto simp: try_repair_to_json_def)

text \<open>
  Claim C2, at the text \<open>{"platforms": {"amazon": {"summary": "abc"\<close>: it has an
  opening brace, a complete \<open>"summary": "abc"\<close> field and no closing brace. The
  search that the source calls the one for the closing quote starts after the closing
  quote of the field, finds no further quote, and the salvage gives nothing: the repair
  parser returns \<open>None\<close>, whatever \<open>json.loads\<close> does.
\<close>

theorem truncation_salvage_lost:
  \<open>repair_truncated_json ''{"platforms": {"amazon": {"summary": "abc"'' = None
   \<and> try_repair_to_json loads ''{"platforms": {"amazon": {"summary": "abc"'' 300000 = Some JNull\<close>
  by (simp add: try_repair_to_json_def utf8_len_def extract_and_load_def
      repair_truncated_json_def py_rfind_def py_find_def Let_def)

text \<open>
  Claim C3: on a text that is not empty and that \<open>json.loads\<close> decodes,
  \<open>safe_json_parse\<close> returns the decoded value itself, for every byte limit.
\<close>

theorem safe_json_parse_direct:
  "raw \<noteq> [] \<Longrightarrow> loads raw = Some v \<Longrightarrow> safe_json_parse loads raw max_bytes = Some v"
  by (simp add: safe_json_parse_def)

theorem safe_json_parse_direct_witness:
  "''{}'' \<noteq> [] \<and> (\<lambda>s. if s = ''{}'' then Some (JObj []) else None) ''{}'' = Some (JObj [])
   \<and> safe_json_parse (\<lambda>s. if s = ''{}'' then Some (JObj []) else None) ''{}'' 300000 = Some (JObj [])"
  using safe_json_parse_direct [of "''{}''" "\<lambda>s. if s = ''{}'' then Some (JObj []) else None" "JObj []" 300000]
  by simp

text \<open>
  Claim C7, at a byte limit below zero: the text is longer than the limit, the loop that
  shortens it by one character holds its condition on the empty text too, and
  \<open>try_repair_to_json\<close> does not return. \<open>safe_json_parse\<close> reaches the same loop
  when the direct decoding and the fenced blocks give nothing.
\<close>

theorem try_repair_to_json_negative_limit:
  "raw \<noteq> [] \<Longrightarrow> max_bytes < 0 \<Longrightarrow> try_repair_to_json loads raw max_bytes = None"
  by (simp add: try_repair_to_json_def truncate_loop_negative)

theorem try_repair_to_json_negative_limit_witness:
  "''a'' \<noteq> [] \<and> (- 1 :: int) < 0
   \<and> try_repair_to_json (\<lambda>s. None) ''a'' (- 1) = None
   \<and> safe_json_parse (\<lambda>s. None) ''a'' (- 1) = None"
proof -
  have loop: "try_repair_to_json (\<lambda>s. None) ''a'' (- 1) = None"
    using try_repair_to_json_negative_limit [of "''a''" "- 1" "\<lambda>s. None"]
    by simp
  have "extract_json_from_markdown (\<lambda>s. None) ''a'' = Some JNull"
    by (simp add: extract_json_from_markdown_def match_fence_def try_repair_to_json_def
        utf8_len_def extract_and_load_def py_find_def Let_def)
  with loop have "safe_json_parse (\<lambda>s. None) ''a'' (- 1) = None"
    by (simp add: safe_json_parse_def)
  with loop show ?thesis by simp
qed

section \<open>Properties of the classifier and of the schema\<close>

text \<open>
  Claim C8, at the product name \<open>perfume serum\<close> with no brand and no description:
  \<open>Fragrance\<close> and \<open>Skincare\<close> both score 1 and the other categories 0, so two
  categories tie for the best score, and the classifier returns \<open>Fragrance\<close>, the
  first of them in the dictionary, not the default \<open>Makeup\<close>.
\<close>

theorem detect_product_category_tie:
  "category_scores (product_text ''perfume serum'' [] [])
     = [(''Fragrance'', 1), (''Makeup'', 0), (''Skincare'', 1), (''Tools'', 0)]
   \<and> detect_product_category ''perfume serum'' [] [] = ''Fragrance''"
  by (simp add: detect_product_category_def category_scores_def category_indicators_def
      product_text_def lower_def lower_char_def contains_def max_score_def Let_def)

text \<open>
  Claim C6 as stated fails: a summary whose other fields are valid, with one entry in
  \<open>pros\<close> and none in \<open>cons\<close> (counts inside 1..7 and 0..7), is rejected.
\<close>

theorem summarized_review_one_pro_rejected:
  "other_field_errors
     \<lparr>master_summary = None, insights = None, pros = [''light''], cons = [],
        scores = None, verdict = ''good''\<rparr> = []
   \<and> validate_summarized_review
     \<lparr>master_summary = None, insights = None, pros = [''light''], cons = [],
        scores = None, verdict = ''good''\<rparr>
     = Inl [TooFewItems ''pros'', TooFewItems ''cons'']"
  by (simp add: other_field_errors_def validate_summarized_review_def
      summarized_review_errors_def check_max_length_def check_platform_insights_def
      check_aspect_scores_def check_verdict_def check_exactly_three_def)

text \<open>
  Claim C6, amended: when the other fields of a summary are valid, the schema accepts it
  exactly when \<open>pros\<close> has three entries and \<open>cons\<close> has three entries.
\<close>

theorem summarized_review_exactly_three:
  "other_field_errors r = [] \<Longrightarrow>
   (validate_summarized_review r = Inr r) = (length (pros r) = 3 \<and> length (cons r) = 3)"
  by (auto simp add: other_field_errors_def validate_summarized_review_def
      summarized_review_errors_def check_exactly_three_def split: list.splits if_splits)

theorem summarized_review_exactly_three_witness:
  "other_field_errors
     \<lparr>master_summary = None, insights = None, pros = [''a'', ''b'', ''c''],
        cons = [''d'', ''e'', ''f''], scores = None, verdict = ''good''\<rparr> = []
   \<and> validate_summarized_review
     \<lparr>master_summary = None, insights = None, pros = [''a'', ''b'', ''c''],
        cons = [''d'', ''e'', ''f''], scores = None, verdict = ''good''\<rparr>
     = Inr \<lparr>master_summary = None, insights = None, pros = [''a'', ''b'', ''c''],
        cons = [''d'', ''e'', ''f''], scores = None, verdict = ''good''\<rparr>"
proof -
  let ?r = "\<lparr>master_summary = None, insights = None, pros = [''a'', ''b'', ''c''],
        cons = [''d'', ''e'', ''f''], scores = None, verdict = ''good''\<rparr>"
  have h: "other_field_errors ?r = []"
    by (simp add: other_field_errors_def check_max_length_def check_platform_insights_def
        check_aspect_scores_def check_verdict_def)
  from summarized_review_exactly_three [OF h] have "validate_summarized_review ?r = Inr ?r"
    by simp
  with h show ?thesis by simp
qed

section \<open>Properties of the store\<close>

lemma and_then_Inr:
  "and_then r f = Inr c' \<Longrightarrow> \<exists>c. r = Inr c \<and> f c = Inr c'"
  by (cases r) (simp_all add: and_then_def)

lemma execute_Inr: "execute e s c = Inr c' \<Longrightarrow> c' = exec_stmt s c"
  by (simp add: execute_def split: if_splits)

lemma store_offer_reviews:
  "store_offer e c product_id platform pd = Inr c' \<Longrightarrow> reviews_table c' = reviews_table c"
  by (auto simp: store_offer_def split: option.splits if_splits
      dest!: and_then_Inr execute_Inr)

lemma store_rating_reviews:
  "store_rating e c product_id platform pd = Inr c' \<Longrightarrow> reviews_table c' = reviews_table c"
  by (auto simp: store_rating_def split: option.splits dest!: execute_Inr)

lemma store_editorial_quotes_reviews:
  "store_editorial_quotes e c product_id qs = Inr c' \<Longrightarrow> reviews_table c' = reviews_table c"
proof (induction qs arbitrary: c)
  case Nil
  then show ?case by simp
next
  case (Cons q qs)
  from Cons.prems obtain c1 where
    "execute e (UpsertEditorialSpec
          \<lparr>sp_product_id = product_id, sp_key = editorial_key (outlet q),
           sp_value = JsonText (JObj [(''outlet'', JStr (outlet q)),
                                      (''quote'', JStr (clean_str (quote q))),
                                      (''url'', JStr (quote_url q))]),
           sp_source = ''editorial'', sp_url = Some (quote_url q), sp_scraped_at = now e\<rparr>) c = Inr c1"
    and rest: "store_editorial_quotes e c1 product_id qs = Inr c'"
    by (auto dest!: and_then_Inr)
  then have "reviews_table c1 = reviews_table c"
    by (auto dest!: execute_Inr)
  with Cons.IH [OF rest] show ?case by simp
qed

lemma store_spec_items_reviews:
  "store_spec_items e c product_id kvs = Inr c' \<Longrightarrow> reviews_table c' = reviews_table c"
proof (induction kvs arbitrary: c)
  case Nil
  then show ?case by simp
next
  case (Cons kv kvs)
  show ?case
  proof (cases "snd kv")
    case None
    with Cons show ?thesis by simp
  next
    case (Some v)
    with Cons.prems obtain c1 where
      "execute e (UpsertSpec
               \<lparr>sp_product_id = product_id, sp_key = fst kv, sp_value = v,
                sp_source = ''aggregated'', sp_url = None, sp_scraped_at = now e\<rparr>) c = Inr c1"
      and rest: "store_spec_items e c1 product_id kvs = Inr c'"
      by (auto dest!: and_then_Inr)
    then have "reviews_table c1 = reviews_table c"
      by (auto dest!: execute_Inr)
    with Cons.IH [OF rest] show ?thesis by simp
  qed
qed

lemma store_summary_reviews:
  "store_summary e c product_id s m h = Inr c' \<Longrightarrow> reviews_table c' = reviews_table c"
  by (auto simp: store_summary_def dest!: execute_Inr)

lemma store_reviews_none:
  "store_reviews e c product_id platform pd = Inr c' \<Longrightarrow> reviews pd = None \<or> reviews pd = Some []
   \<Longrightarrow> c' = c"
  by (auto simp: store_reviews_def)

lemma store_reviews_replaced:
  assumes "store_reviews e c product_id platform pd = Inr c'"
    and "reviews pd = Some rs" and "rs \<noteq> []"
  shows "reviews_table c' =
     filter (\<lambda>r. \<not> (rv_product_id r = product_id \<and> rv_retailer r = platform)) (reviews_table c)
     @ map (review_tuple product_id platform) (take 5 rs)"
proof -
  from assms obtain c1 where d: "execute e (DeleteReviews product_id platform) c = Inr c1"
    and i: "execute e (InsertReviews (map (review_tuple product_id platform) (take 5 rs))) c1 = Inr c'"
    by (auto simp: store_reviews_def Let_def dest!: and_then_Inr)
  from d have "c1 = exec_stmt (DeleteReviews product_id platform) c" by (rule execute_Inr)
  moreover from i have "c' = exec_stmt (InsertReviews (map (review_tuple product_id platform) (take 5 rs))) c1"
    by (rule execute_Inr)
  ultimately show ?thesis by simp
qed

lemma store_platform_data_replaced:
  assumes "store_platform_data e c product_id platform pd = Inr c'"
    and "reviews pd = Some rs" and "rs \<noteq> []"
  shows "reviews_of c' product_id platform = map (review_tuple product_id platform) (take 5 rs)"
proof -
  from assms(1) obtain c1 c2 where o: "store_offer e c product_id platform pd = Inr c1"
    and r: "store_rating e c1 product_id platform pd = Inr c2"
    and v: "store_reviews e c2 product_id platform pd = Inr c'"
    by (auto simp: store_platform_data_def dest!: and_then_Inr)
  have "reviews_table c' =
     filter (\<lambda>r. \<not> (rv_product_id r = product_id \<and> rv_retailer r = platform)) (reviews_table c2)
     @ map (review_tuple product_id platform) (take 5 rs)"
    using v assms(2,3) by (rule store_reviews_replaced)
  then show ?thesis
    by (simp add: reviews_of_def review_tuple_def filter_map comp_def)
qed

lemma store_platform_data_other:
  assumes "store_platform_data e c product_id platform pd = Inr c'"
    and "platform \<noteq> retailer"
  shows "reviews_of c' product_id retailer = reviews_of c product_id retailer"
proof -
  from assms(1) obtain c1 c2 where o: "store_offer e c product_id platform pd = Inr c1"
    and r: "store_rating e c1 product_id platform pd = Inr c2"
    and v: "store_reviews e c2 product_id platform pd = Inr c'"
    by (auto simp: store_platform_data_def dest!: and_then_Inr)
  have t: "reviews_table c2 = reviews_table c"
    using store_offer_reviews [OF o] store_rating_reviews [OF r] by simp
  show ?thesis
  proof (cases "reviews pd = None \<or> reviews pd = Some []")
    case True
    with v have "c' = c2" by (rule store_reviews_none)
    with t show ?thesis by (simp add: reviews_of_def)
  next
    case False
    then obtain rs where rs: "reviews pd = Some rs" "rs \<noteq> []" by auto
    have "reviews_table c' =
       filter (\<lambda>r. \<not> (rv_product_id r = product_id \<and> rv_retailer r = platform)) (reviews_table c2)
       @ map (review_tuple product_id platform) (take 5 rs)"
      using v rs by (rule store_reviews_replaced)
    with t assms(2) show ?thesis
      by (auto simp add: reviews_of_def review_tuple_def filter_map comp_def intro: filter_cong)
  qed
qed

lemma store_platform_entry_other:
  assumes "store_platform_entry e c product_id pname v = Inr c'" and "pname \<noteq> retailer"
  shows "reviews_of c' product_id retailer = reviews_of c product_id retailer"
proof (cases "pname = ''editorial''")
  case True
  show ?thesis
  proof (cases v)
    case (EditorialBlockV b)
    with True assms(1) have "store_editorial_quotes e c product_id (quotes b) = Inr c'"
      by (simp add: store_platform_entry_def store_editorial_data_def)
    then have "reviews_table c' = reviews_table c" by (rule store_editorial_quotes_reviews)
    then show ?thesis by (simp add: reviews_of_def)
  qed (use True assms(1) in \<open>simp_all add: store_platform_entry_def\<close>)
next
  case False
  show ?thesis
  proof (cases v)
    case (PlatformDataV pd)
    with False assms(1) have "store_platform_data e c product_id pname pd = Inr c'"
      by (simp add: store_platform_entry_def)
    then show ?thesis using assms(2) by (rule store_platform_data_other)
  qed (use False assms(1) in \<open>simp_all add: store_platform_entry_def\<close>)
qed

lemma store_platforms_other:
  "store_platforms e c product_id kvs = Inr c' \<Longrightarrow> retailer \<notin> fst ` set kvs
   \<Longrightarrow> reviews_of c' product_id retailer = reviews_of c product_id retailer"
proof (induction kvs arbitrary: c)
  case Nil
  then show ?case by simp
next
  case (Cons kv kvs)
  from Cons.prems(1) obtain c1 where
    one: "store_platform_entry e c product_id (fst kv) (snd kv) = Inr c1"
    and rest: "store_platforms e c1 product_id kvs = Inr c'"
    by (auto dest!: and_then_Inr)
  from Cons.prems(2) have "fst kv \<noteq> retailer" and "retailer \<notin> fst ` set kvs" by auto
  with store_platform_entry_other [OF one] Cons.IH [OF rest] show ?case by simp
qed

lemma store_platforms_replaced:
  "store_platforms e c product_id kvs = Inr c' \<Longrightarrow> distinct (map fst kvs)
   \<Longrightarrow> (retailer, PlatformDataV pd) \<in> set kvs \<Longrightarrow> retailer \<noteq> ''editorial''
   \<Longrightarrow> reviews pd = Some rs \<Longrightarrow> rs \<noteq> []
   \<Longrightarrow> reviews_of c' product_id retailer = map (review_tuple product_id retailer) (take 5 rs)"
proof (induction kvs arbitrary: c)
  case Nil
  then show ?case by simp
next
  case (Cons kv kvs)
  from Cons.prems(1) obtain c1 where
    one: "store_platform_entry e c product_id (fst kv) (snd kv) = Inr c1"
    and rest: "store_platforms e c1 product_id kvs = Inr c'"
    by (auto dest!: and_then_Inr)
  show ?case
  proof (cases "kv = (retailer, PlatformDataV pd)")
    case True
    with one Cons.prems(4) have "store_platform_data e c product_id retailer pd = Inr c1"
      by (simp add: store_platform_entry_def)
    then have "reviews_of c1 product_id retailer = map (review_tuple product_id retailer) (take 5 rs)"
      using Cons.prems(5,6) by (rule store_platform_data_replaced)
    moreover from True Cons.prems(2) have "retailer \<notin> fst ` set kvs" by auto
    with rest have "reviews_of c' product_id retailer = reviews_of c1 product_id retailer"
      by (rule store_platforms_other)
    ultimately show ?thesis by simp
  next
    case False
    with Cons.prems(3) have "(retailer, PlatformDataV pd) \<in> set kvs" by simp
    moreover from Cons.prems(2) have "distinct (map fst kvs)" by simp
    ultimately show ?thesis
      using Cons.IH [OF rest] Cons.prems(4,5,6) by blast
  qed
qed

lemma store_all_reviews:
  assumes "store_all e c product_id snap m h = Inr c'"
  obtains c1 where "store_platforms e c product_id (platforms snap) = Inr c1"
    and "reviews_table c' = reviews_table c1"
proof -
  from assms obtain c1 c2 where p: "store_platforms e c product_id (platforms snap) = Inr c1"
    and s: "store_specifications e c1 product_id (specs snap) = Inr c2"
    and u: "store_summary e c2 product_id (summarized snap) m h = Inr c'"
    by (auto simp: store_all_def dest!: and_then_Inr)
  from s have "reviews_table c2 = reviews_table c1"
    unfolding store_specifications_def by (rule store_spec_items_reviews)
  with store_summary_reviews [OF u] have "reviews_table c' = reviews_table c1" by simp
  with p that show ?thesis by blast
qed

lemma store_platform_data_no_reviews:
  assumes "store_platform_data e c product_id platform pd = Inr c'"
    and "reviews pd = None \<or> reviews pd = Some []"
  shows "reviews_table c' = reviews_table c"
proof -
  from assms(1) obtain c1 c2 where o: "store_offer e c product_id platform pd = Inr c1"
    and r: "store_rating e c1 product_id platform pd = Inr c2"
    and v: "store_reviews e c2 product_id platform pd = Inr c'"
    by (auto simp: store_platform_data_def dest!: and_then_Inr)
  from v assms(2) have "c' = c2" by (rule store_reviews_none)
  with store_offer_reviews [OF o] store_rating_reviews [OF r] show ?thesis by simp
qed

text \<open>
  An entry of \<open>platforms\<close> that carries no reviews for the retailer leaves the rows of
  the retailer as they are: an entry under another name, an entry under \<open>editorial\<close>,
  a value that is no \<open>PlatformData\<close>, or a \<open>PlatformData\<close> without reviews.
\<close>

lemma store_platform_entry_kept:
  assumes "store_platform_entry e c product_id pname v = Inr c'"
    and "pname = retailer \<longrightarrow> retailer = ''editorial''
           \<or> (\<forall>pd. v = PlatformDataV pd \<longrightarrow> reviews pd = None \<or> reviews pd = Some [])"
  shows "reviews_of c' product_id retailer = reviews_of c product_id retailer"
proof (cases "pname = retailer")
  case False
  with assms(1) show ?thesis by (rule store_platform_entry_other)
next
  case same: True
  show ?thesis
  proof (cases "pname = ''editorial''")
    case True
    show ?thesis
    proof (cases v)
      case (EditorialBlockV b)
      with True assms(1) have "store_editorial_quotes e c product_id (quotes b) = Inr c'"
        by (simp add: store_platform_entry_def store_editorial_data_def)
      then have "reviews_table c' = reviews_table c" by (rule store_editorial_quotes_reviews)
      then show ?thesis by (simp add: reviews_of_def)
    qed (use True assms(1) in \<open>simp_all add: store_platform_entry_def\<close>)
  next
    case False
    show ?thesis
    proof (cases v)
      case (PlatformDataV pd)
      with False assms(1) have run: "store_platform_data e c product_id pname pd = Inr c'"
        by (simp add: store_platform_entry_def)
      from same False PlatformDataV assms(2) have "reviews pd = None \<or> reviews pd = Some []"
        by simp
      with run have "reviews_table c' = reviews_table c" by (rule store_platform_data_no_reviews)
      then show ?thesis by (simp add: reviews_of_def)
    qed (use False assms(1) in \<open>simp_all add: store_platform_entry_def\<close>)
  qed
qed

lemma store_platforms_kept:
  "store_platforms e c product_id kvs = Inr c'
   \<Longrightarrow> (\<forall>v. (retailer, v) \<in> set kvs \<longrightarrow> retailer = ''editorial''
           \<or> (\<forall>pd. v = PlatformDataV pd \<longrightarrow> reviews pd = None \<or> reviews pd = Some []))
   \<Longrightarrow> reviews_of c' product_id retailer = reviews_of c product_id retailer"
proof (induction kvs arbitrary: c)
  case Nil
  then show ?case by simp
next
  case (Cons kv kvs)
  from Cons.prems(1) obtain c1 where
    one: "store_platform_entry e c product_id (fst kv) (snd kv) = Inr c1"
    and rest: "store_platforms e c1 product_id kvs = Inr c'"
    by (auto dest!: and_then_Inr)
  from Cons.prems(2) have here: "fst kv = retailer \<longrightarrow> retailer = ''editorial''
       \<or> (\<forall>pd. snd kv = PlatformDataV pd \<longrightarrow> reviews pd = None \<or> reviews pd = Some [])"
    by (cases kv) auto
  from Cons.prems(2) have later: "\<forall>v. (retailer, v) \<in> set kvs \<longrightarrow> retailer = ''editorial''
       \<or> (\<forall>pd. v = PlatformDataV pd \<longrightarrow> reviews pd = None \<or> reviews pd = Some [])"
    by auto
  from store_platform_entry_kept [OF one here] Cons.IH [OF rest later] show ?case by simp
qed

lemma store_snapshot_True:
  "store_snapshot e d product_id snap m h = (d', Returns True) \<Longrightarrow>
   store_all e d product_id snap m h = Inr d'"
  by (auto simp: store_snapshot_def except_block_def finally_block_def
      split: if_splits sum.splits prod.splits)


lemmas store_eval = store_snapshot_def store_all_def store_platform_entry_def
  store_platform_data_def store_offer_def store_rating_def store_reviews_def
  store_specifications_def spec_mappings_def store_summary_def summary_tuple_def
  execute_def and_then_def except_block_def finally_block_def upsert_def
  insert_if_absent_def same_summary_def same_offer_def same_price_day_def env_ok_def
  env_lost_def empty_db_def review_of_def platform_with_def
  snapshot_with_def ten_dollars_def reviews_of_def review_tuple_def clean_text_def
  clean_str_def strip_def is_space_def is_cleaned_char_def truthy_float_def
  clamp_float_def ensure_currency_usd_def upper_def upper_char_def Let_def

text \<open>
  Claim C1 as stated fails: snapshot A has one review for \<open>amazon\<close>, snapshot B has
  the empty list of reviews for \<open>amazon\<close>. Both calls return \<open>True\<close>, and the table
  still holds the review of A, which is not a review of B.
\<close>

theorem store_snapshot_keeps_old_reviews:
  "snd (store_snapshot env_ok empty_db ''p1''
          (snapshot_with [(''amazon'', PlatformDataV (platform_with None (Some [review_of ''ann'' 4])))] [])
          ''m'' ''h'') = Returns True
   \<and> snd (store_snapshot env_ok
          (fst (store_snapshot env_ok empty_db ''p1''
             (snapshot_with [(''amazon'', PlatformDataV (platform_with None (Some [review_of ''ann'' 4])))] [])
             ''m'' ''h''))
          ''p1'' (snapshot_with [(''amazon'', PlatformDataV (platform_with None (Some [])))] []) ''m'' ''h'')
       = Returns True
   \<and> reviews_of
        (fst (store_snapshot env_ok
          (fst (store_snapshot env_ok empty_db ''p1''
             (snapshot_with [(''amazon'', PlatformDataV (platform_with None (Some [review_of ''ann'' 4])))] [])
             ''m'' ''h''))
          ''p1'' (snapshot_with [(''amazon'', PlatformDataV (platform_with None (Some [])))] []) ''m'' ''h''))
        ''p1'' ''amazon''
      = [review_tuple ''p1'' ''amazon'' (review_of ''ann'' 4)]"
  by (simp add: store_eval)

text \<open>
  Claim C1, amended, for the call with snapshot B that returns \<open>True\<close> after the call
  with snapshot A. First: when the entry of B for a retailer is a \<open>PlatformData\<close> with a
  list of reviews that is not empty, the rows of the reviews table for the product and
  the retailer are afterwards exactly the rows of the first five reviews of B, in their
  order: at most five rows, and none of A. Second: when B carries no reviews for the
  retailer (every entry of B under the retailer's name is under \<open>editorial\<close>, is no
  \<open>PlatformData\<close>, or has no reviews or the empty list), the rows for the product and
  the retailer are the ones that were there before the call with B.
\<close>

theorem store_snapshot_replaces_reviews:
  assumes "store_snapshot e2 (fst (store_snapshot e1 d product_id a m1 h1)) product_id b m2 h2
      = (d', Returns True)"
  shows "(distinct (map fst (platforms b)) \<and> (retailer, PlatformDataV pd) \<in> set (platforms b)
        \<and> retailer \<noteq> ''editorial'' \<and> reviews pd = Some rs \<and> rs \<noteq> []
      \<longrightarrow> reviews_of d' product_id retailer
            = map (review_tuple product_id retailer) (take 5 rs)
          \<and> length (reviews_of d' product_id retailer) \<le> 5)
    \<and> ((\<forall>v. (retailer, v) \<in> set (platforms b) \<longrightarrow> retailer = ''editorial''
            \<or> (\<forall>p. v = PlatformDataV p \<longrightarrow> reviews p = None \<or> reviews p = Some []))
      \<longrightarrow> reviews_of d' product_id retailer
            = reviews_of (fst (store_snapshot e1 d product_id a m1 h1)) product_id retailer)"
proof -
  let ?d1 = "fst (store_snapshot e1 d product_id a m1 h1)"
  from assms have "store_all e2 ?d1 product_id b m2 h2 = Inr d'"
    by (rule store_snapshot_True)
  then obtain c1 where
    p: "store_platforms e2 ?d1 product_id (platforms b) = Inr c1"
    and t: "reviews_table d' = reviews_table c1"
    by (rule store_all_reviews)
  from t have same: "reviews_of d' product_id retailer = reviews_of c1 product_id retailer"
    by (simp add: reviews_of_def)
  have first: "reviews_of d' product_id retailer
            = map (review_tuple product_id retailer) (take 5 rs)
          \<and> length (reviews_of d' product_id retailer) \<le> 5"
    if "distinct (map fst (platforms b))" "(retailer, PlatformDataV pd) \<in> set (platforms b)"
      "retailer \<noteq> ''editorial''" "reviews pd = Some rs" "rs \<noteq> []"
  proof -
    from p that
    have "reviews_of c1 product_id retailer = map (review_tuple product_id retailer) (take 5 rs)"
      by (rule store_platforms_replaced)
    with same show ?thesis by simp
  qed
  have second: "reviews_of d' product_id retailer = reviews_of ?d1 product_id retailer"
    if "\<forall>v. (retailer, v) \<in> set (platforms b) \<longrightarrow> retailer = ''editorial''
            \<or> (\<forall>p. v = PlatformDataV p \<longrightarrow> reviews p = None \<or> reviews p = Some [])"
  proof -
    from p that have "reviews_of c1 product_id retailer = reviews_of ?d1 product_id retailer"
      by (rule store_platforms_kept)
    with same show ?thesis by simp
  qed
  from first second show ?thesis by blast
qed

theorem store_snapshot_replaces_reviews_witness:
  "distinct (map fst (platforms (snapshot_with
      [(''amazon'', PlatformDataV (platform_with None (Some [review_of ''bob'' 5, review_of ''cy'' 3])))] [])))
   \<and> (''amazon'', PlatformDataV (platform_with None (Some [review_of ''bob'' 5, review_of ''cy'' 3])))
       \<in> set (platforms (snapshot_with
      [(''amazon'', PlatformDataV (platform_with None (Some [review_of ''bob'' 5, review_of ''cy'' 3])))] []))
   \<and> ''amazon'' \<noteq> ''editorial''
   \<and> reviews (platform_with None (Some [review_of ''bob'' 5, review_of ''cy'' 3]))
       = Some [review_of ''bob'' 5, review_of ''cy'' 3]
   \<and> snd (store_snapshot env_ok
        (fst (store_snapshot env_ok empty_db ''p1''
           (snapshot_with [(''amazon'', PlatformDataV (platform_with None (Some [review_of ''ann'' 4])))] [])
           ''m'' ''h''))
        ''p1''
        (snapshot_with
           [(''amazon'', PlatformDataV (platform_with None (Some [review_of ''bob'' 5, review_of ''cy'' 3])))] [])
        ''m'' ''h'') = Returns True
   \<and> reviews_of
        (fst (store_snapshot env_ok
          (fst (store_snapshot env_ok empty_db ''p1''
             (snapshot_with [(''amazon'', PlatformDataV (platform_with None (Some [review_of ''ann'' 4])))] [])
             ''m'' ''h''))
          ''p1''
          (snapshot_with
             [(''amazon'', PlatformDataV (platform_with None (Some [review_of ''bob'' 5, review_of ''cy'' 3])))] [])
          ''m'' ''h''))
        ''p1'' ''amazon''
      = map (review_tuple ''p1'' ''amazon'') (take 5 [review_of ''bob'' 5, review_of ''cy'' 3])
   \<and> snd (store_snapshot env_ok
        (fst (store_snapshot env_ok empty_db ''p1''
           (snapshot_with [(''amazon'', PlatformDataV (platform_with None (Some [review_of ''ann'' 4])))] [])
           ''m'' ''h''))
        ''p1''
        (snapshot_with [(''amazon'', PlatformDataV (platform_with None None))] [])
        ''m'' ''h'') = Returns True
   \<and> reviews_of
        (fst (store_snapshot env_ok
          (fst (store_snapshot env_ok empty_db ''p1''
             (snapshot_with [(''amazon'', PlatformDataV (platform_with None (Some [review_of ''ann'' 4])))] [])
             ''m'' ''h''))
          ''p1''
          (snapshot_with [(''amazon'', PlatformDataV (platform_with None None))] [])
          ''m'' ''h''))
        ''p1'' ''amazon''
      = reviews_of
          (fst (store_snapshot env_ok empty_db ''p1''
             (snapshot_with [(''amazon'', PlatformDataV (platform_with None (Some [review_of ''ann'' 4])))] [])
             ''m'' ''h''))
          ''p1'' ''amazon''"
proof -
  let ?pd = "platform_with None (Some [review_of ''bob'' 5, review_of ''cy'' 3])"
  let ?b = "snapshot_with [(''amazon'', PlatformDataV ?pd)] []"
  let ?n = "snapshot_with [(''amazon'', PlatformDataV (platform_with None None))] []"
  let ?a = "snapshot_with [(''amazon'', PlatformDataV (platform_with None (Some [review_of ''ann'' 4])))] []"
  let ?d1 = "fst (store_snapshot env_ok empty_db ''p1'' ?a ''m'' ''h'')"
  let ?r = "store_snapshot env_ok ?d1 ''p1'' ?b ''m'' ''h''"
  let ?q = "store_snapshot env_ok ?d1 ''p1'' ?n ''m'' ''h''"
  have ok: "snd ?r = Returns True"
    by (simp add: store_eval)
  then have h1: "?r = (fst ?r, Returns True)"
    by (simp add: prod_eq_iff)
  have h2: "distinct (map fst (platforms ?b))"
    and h3: "(''amazon'', PlatformDataV ?pd) \<in> set (platforms ?b)"
    and h5: "reviews ?pd = Some [review_of ''bob'' 5, review_of ''cy'' 3]"
    by (simp_all add: snapshot_with_def platform_with_def)
  have h4: "''amazon'' \<noteq> ''editorial''" by simp
  have h6: "[review_of ''bob'' 5, review_of ''cy'' 3] \<noteq> []" by simp
  from h2 h3 h4 h5 h6 have hyp: "distinct (map fst (platforms ?b))
      \<and> (''amazon'', PlatformDataV ?pd) \<in> set (platforms ?b)
      \<and> ''amazon'' \<noteq> ''editorial''
      \<and> reviews ?pd = Some [review_of ''bob'' 5, review_of ''cy'' 3]
      \<and> [review_of ''bob'' 5, review_of ''cy'' 3] \<noteq> []"
    by (intro conjI)
  note both = store_snapshot_replaces_reviews [OF h1, of "''amazon''" ?pd
      "[review_of ''bob'' 5, review_of ''cy'' 3]"]
  from both have imp: "distinct (map fst (platforms ?b))
      \<and> (''amazon'', PlatformDataV ?pd) \<in> set (platforms ?b)
      \<and> ''amazon'' \<noteq> ''editorial''
      \<and> reviews ?pd = Some [review_of ''bob'' 5, review_of ''cy'' 3]
      \<and> [review_of ''bob'' 5, review_of ''cy'' 3] \<noteq> []
      \<longrightarrow> reviews_of (fst ?r) ''p1'' ''amazon''
            = map (review_tuple ''p1'' ''amazon'') (take 5 [review_of ''bob'' 5, review_of ''cy'' 3])
          \<and> length (reviews_of (fst ?r) ''p1'' ''amazon'') \<le> 5"
    by (rule conjunct1)
  from imp hyp have "reviews_of (fst ?r) ''p1'' ''amazon''
            = map (review_tuple ''p1'' ''amazon'') (take 5 [review_of ''bob'' 5, review_of ''cy'' 3])
          \<and> length (reviews_of (fst ?r) ''p1'' ''amazon'') \<le> 5"
    by (rule mp)
  then have replaced: "reviews_of (fst ?r) ''p1'' ''amazon''
      = map (review_tuple ''p1'' ''amazon'') (take 5 [review_of ''bob'' 5, review_of ''cy'' 3])"
    by (rule conjunct1)
  have ok2: "snd ?q = Returns True"
    by (simp add: store_eval)
  then have k1: "?q = (fst ?q, Returns True)"
    by (simp add: prod_eq_iff)
  have none: "\<forall>v. (''amazon'', v) \<in> set (platforms ?n) \<longrightarrow> ''amazon'' = ''editorial''
            \<or> (\<forall>p. v = PlatformDataV p \<longrightarrow> reviews p = None \<or> reviews p = Some [])"
    by (simp add: snapshot_with_def platform_with_def)
  from store_snapshot_replaces_reviews [OF k1, of "''amazon''"]
  have "(\<forall>v. (''amazon'', v) \<in> set (platforms ?n) \<longrightarrow> ''amazon'' = ''editorial''
            \<or> (\<forall>p. v = PlatformDataV p \<longrightarrow> reviews p = None \<or> reviews p = Some []))
      \<longrightarrow> reviews_of (fst ?q) ''p1'' ''amazon'' = reviews_of ?d1 ''p1'' ''amazon''"
    by (rule conjunct2)
  from this none have kept: "reviews_of (fst ?q) ''p1'' ''amazon'' = reviews_of ?d1 ''p1'' ''amazon''"
    by (rule mp)
  from h2 h3 h4 h5 ok replaced ok2 kept show ?thesis
    by (intro conjI)
qed

text \<open>
  When neither the rollback nor the close raises, the call is all or nothing: with no
  connection, with a statement that raises or with a commit that raises it returns
  \<open>False\<close> and the database is the one before the call; else the database is the one
  that the statements have made and it returns \<open>True\<close>.
\<close>

lemma store_snapshot_all_or_nothing:
  assumes "\<not> rollback_fails e" and "\<not> close_fails e"
  shows "((\<not> connect_ok e \<or> (\<exists>x. store_all e d product_id snap m h = Inl x)
      \<or> (\<exists>c. store_all e d product_id snap m h = Inr c \<and> commit_fails e c))
     \<longrightarrow> store_snapshot e d product_id snap m h = (d, Returns False))
   \<and> (\<forall>c. connect_ok e \<and> store_all e d product_id snap m h = Inr c \<and> \<not> commit_fails e c
     \<longrightarrow> store_snapshot e d product_id snap m h = (c, Returns True))"
  using assms
  by (auto simp: store_snapshot_def except_block_def finally_block_def
      split: sum.splits prod.splits)

text \<open>
  Claim C5, where it fails: there is a connection and a statement of the transaction or
  the commit raises. When \<open>conn.rollback()\<close> raises in the \<open>except\<close> block, or
  \<open>conn.close()\<close> raises in the \<open>finally\<close> block, the exception leaves
  \<open>store_snapshot\<close>: the call raises instead of returning \<open>False\<close>. (The database is
  the one before the call.) And when everything is committed and \<open>conn.close()\<close> then
  raises, the call raises instead of returning \<open>True\<close>.
\<close>

theorem store_snapshot_cleanup_raises:
  "(connect_ok e
      \<and> ((\<exists>x. store_all e d product_id snap m h = Inl x)
          \<or> (\<exists>c. store_all e d product_id snap m h = Inr c \<and> commit_fails e c))
      \<and> (rollback_fails e \<or> close_fails e)
     \<longrightarrow> store_snapshot e d product_id snap m h = (d, Raises InterfaceError))
   \<and> (\<forall>c. connect_ok e \<and> store_all e d product_id snap m h = Inr c \<and> \<not> commit_fails e c
          \<and> close_fails e
     \<longrightarrow> store_snapshot e d product_id snap m h = (c, Raises InterfaceError))"
  by (auto simp: store_snapshot_def except_block_def finally_block_def
      split: sum.splits prod.splits)

theorem store_snapshot_cleanup_raises_witness:
  "connect_ok env_lost \<and> rollback_fails env_lost
   \<and> store_all env_lost empty_db ''p1''
      (snapshot_with [(''amazon'', PlatformDataV (platform_with (Some ten_dollars) None))] []) ''m'' ''h''
     = Inl (DatabaseError, empty_db\<lparr>offers_table :=
          [\<lparr>o_product_id = ''p1'', o_retailer = ''amazon'', o_price_amount = Some 10,
            o_price_currency = Some ''USD'', o_unit_price = None, o_availability = None,
            o_promo = None, o_url = None, o_scraped_at = 0\<rparr>]\<rparr>)
   \<and> store_snapshot env_lost empty_db ''p1''
      (snapshot_with [(''amazon'', PlatformDataV (platform_with (Some ten_dollars) None))] []) ''m'' ''h''
     = (empty_db, Raises InterfaceError)"
proof -
  let ?s = "snapshot_with [(''amazon'', PlatformDataV (platform_with (Some ten_dollars) None))] []"
  have c: "connect_ok env_lost" and r: "rollback_fails env_lost"
    by (simp_all add: env_lost_def)
  have bad: "store_all env_lost empty_db ''p1'' ?s ''m'' ''h''
     = Inl (DatabaseError, empty_db\<lparr>offers_table :=
          [\<lparr>o_product_id = ''p1'', o_retailer = ''amazon'', o_price_amount = Some 10,
            o_price_currency = Some ''USD'', o_unit_price = None, o_availability = None,
            o_promo = None, o_url = None, o_scraped_at = 0\<rparr>]\<rparr>)"
    by (simp add: store_eval)
  then have "\<exists>x. store_all env_lost empty_db ''p1'' ?s ''m'' ''h'' = Inl x"
    by (rule exI [of _ "(DatabaseError, empty_db\<lparr>offers_table :=
          [\<lparr>o_product_id = ''p1'', o_retailer = ''amazon'', o_price_amount = Some 10,
            o_price_currency = Some ''USD'', o_unit_price = None, o_availability = None,
            o_promo = None, o_url = None, o_scraped_at = 0\<rparr>]\<rparr>)"])
  with c r store_snapshot_cleanup_raises [of env_lost empty_db "''p1''" ?s "''m''" "''h''"]
  have "store_snapshot env_lost empty_db ''p1'' ?s ''m'' ''h'' = (empty_db, Raises InterfaceError)"
    by blast
  with c r bad show ?thesis by (intro conjI)
qed



text \<open>
  Claim C10: after \<open>store_platform_data\<close> has run on a platform with reviews, the rows
  for the product and the platform are the tuples of the first five reviews; in the tuple
  of a review with rating 0 the rating is absent, and in the tuple of a review with a
  rating above 0 it is the rating brought into the range from 0 to 5.
\<close>

theorem store_platform_data_review_rating:
  assumes "store_platform_data e c product_id platform pd = Inr c'"
    and "reviews pd = Some rs" and "rs \<noteq> []"
  shows "reviews_of c' product_id platform = map (review_tuple product_id platform) (take 5 rs)
    \<and> (\<forall>r \<in> set rs.
          (review_rating r = Some 0 \<longrightarrow> rv_rating (review_tuple product_id platform r) = None)
        \<and> (\<forall>x. review_rating r = Some x \<and> 0 < x \<longrightarrow>
              rv_rating (review_tuple product_id platform r) = Some (max 0 (min 5 x))
              \<and> 0 \<le> max 0 (min 5 x) \<and> max 0 (min 5 x) \<le> 5))"
  using store_platform_data_replaced [OF assms]
  by (auto simp: review_tuple_def truthy_float_def clamp_float_def)

theorem store_platform_data_review_rating_witness:
  "reviews (platform_with None (Some [review_of ''ann'' 0, review_of ''bob'' 7, review_of ''cy'' 3]))
     = Some [review_of ''ann'' 0, review_of ''bob'' 7, review_of ''cy'' 3]
   \<and> (\<exists>c'. store_platform_data env_ok empty_db ''p1'' ''amazon''
         (platform_with None (Some [review_of ''ann'' 0, review_of ''bob'' 7, review_of ''cy'' 3]))
         = Inr c'
       \<and> map rv_rating (reviews_of c' ''p1'' ''amazon'') = [None, Some 5, Some 3])"
proof -
  let ?rs = "[review_of ''ann'' 0, review_of ''bob'' 7, review_of ''cy'' 3]"
  let ?pd = "platform_with None (Some ?rs)"
  have "\<exists>c'. store_platform_data env_ok empty_db ''p1'' ''amazon'' ?pd = Inr c'"
    by (simp add: store_eval)
  then obtain c' where c': "store_platform_data env_ok empty_db ''p1'' ''amazon'' ?pd = Inr c'" ..
  have h2: "reviews ?pd = Some ?rs"
    by (simp add: platform_with_def)
  have h3: "?rs \<noteq> []" by simp
  from store_platform_data_review_rating [OF c' h2 h3]
  have "reviews_of c' ''p1'' ''amazon'' = map (review_tuple ''p1'' ''amazon'') (take 5 ?rs)"
    by (rule conjunct1)
  then have "map rv_rating (reviews_of c' ''p1'' ''amazon'') = [None, Some 5, Some 3]"
    by (simp add: review_tuple_def review_of_def truthy_float_def clamp_float_def)
  with c' have "store_platform_data env_ok empty_db ''p1'' ''amazon'' ?pd = Inr c'
      \<and> map rv_rating (reviews_of c' ''p1'' ''amazon'') = [None, Some 5, Some 3]"
    by (rule conjI)
  then have "\<exists>c'. store_platform_data env_ok empty_db ''p1'' ''amazon'' ?pd = Inr c'
      \<and> map rv_rating (reviews_of c' ''p1'' ''amazon'') = [None, Some 5, Some 3]"
    by (rule exI [of _ c'])
  with h2 show ?thesis by (rule conjI)
qed

section \<open>Properties of the parallel aggregation\<close>

lemma collect_fold:
  "map_of (fold (\<lambda>chunk_name chunk_results.
             case map_of tasks chunk_name of
               None \<Rightarrow> chunk_results
             | Some func \<Rightarrow> AList.update chunk_name (func product_name) chunk_results)
       completion acc) k
   = (if k \<in> set completion \<and> map_of tasks k \<noteq> None
      then map_option (\<lambda>func. func product_name) (map_of tasks k)
      else map_of acc k)"
proof (induction completion arbitrary: acc)
  case Nil
  then show ?case by simp
next
  case (Cons c cs)
  show ?case
    by (cases "map_of tasks c") (auto simp: Cons.IH update_conv')
qed

lemma collect_chunks_lookup:
  assumes "set completion = {''retail'', ''editorial'', ''influencer''}"
  shows "map_of (collect_chunks fs product_name completion) ''retail''
           = Some (fetch_retail_wrapper fs product_name)"
    and "map_of (collect_chunks fs product_name completion) ''editorial''
           = Some (fetch_editorial_wrapper fs product_name)"
    and "map_of (collect_chunks fs product_name completion) ''influencer''
           = Some (fetch_influencer_wrapper fs product_name)"
  using assms unfolding collect_chunks_def collect_fold
  by (simp_all add: parallel_tasks_def)

lemma update_fold:
  "map_of (fold (\<lambda>kv acc. AList.update (JStr (fst kv)) (snd kv) acc) kvs d)
     = map_of d ++ map_of (rev (map (\<lambda>kv. (JStr (fst kv), snd kv)) kvs))"
proof (induction kvs arbitrary: d)
  case Nil
  then show ?case by simp
next
  case (Cons kv kvs)
  let ?keyed = "map (\<lambda>kv. (JStr (fst kv), snd kv))"
  have "map_of (fold (\<lambda>kv acc. AList.update (JStr (fst kv)) (snd kv) acc) (kv # kvs) d)
      = map_of (AList.update (JStr (fst kv)) (snd kv) d) ++ map_of (rev (?keyed kvs))"
    by (simp add: Cons.IH)
  also have "\<dots> = (map_of d ++ map_of [(JStr (fst kv), snd kv)]) ++ map_of (rev (?keyed kvs))"
    by (simp add: update_conv')
  also have "\<dots> = map_of d ++ map_of (rev (?keyed (kv # kvs)))"
    by simp
  finally show ?case .
qed

text \<open>
  A block of the merge on the chunk that the wrapper made of a segment of the expected
  shape: it does not raise, and it writes the platform entries of the segment over the
  ones merged so far.
\<close>

lemma merge_chunk_wrapped:
  assumes "map_of chunk_results chunk_name = Some (case r of Inl ex \<Rightarrow> JObj [] | Inr d \<Rightarrow> d)"
    and "segment_shape r"
  shows "\<exists>p. merge_chunk chunk_results chunk_name acc = Inr p
           \<and> map_of p = map_of acc ++ map_of (rev (segment_platforms r))"
proof (cases r)
  case (Inl ex)
  with assms(1) show ?thesis
    by (simp add: merge_chunk_def dict_get_def segment_platforms_def)
next
  case (Inr d)
  with assms(2) obtain kvs where d: "d = JObj kvs"
    by (cases d) (simp_all add: segment_shape_def)
  show ?thesis
  proof (cases "map_of kvs ''platforms''")
    case None
    with assms(1) Inr d show ?thesis
      by (simp add: merge_chunk_def dict_get_def segment_platforms_def)
  next
    case (Some v)
    show ?thesis
    proof (cases v)
      case (JObj ps)
      with assms(1) Inr d Some show ?thesis
        by (simp add: merge_chunk_def dict_get_def segment_platforms_def dict_update_def
            update_fold)
    qed (use assms Inr d Some in
          \<open>simp_all add: merge_chunk_def dict_get_def segment_platforms_def segment_shape_def\<close>)
  qed
qed

text \<open>
  Claim C4 as stated fails: the retail fetcher raises a transport failure, the editorial
  and the influencer fetcher return, and the summary returns; but the influencer segment
  holds the list \<open>["youtube"]\<close> under \<open>platforms\<close>. The merge gives that list to
  \<open>update\<close>, which raises, and the aggregation raises instead of returning a snapshot.
\<close>

theorem parallel_aborts_on_list_platforms:
  "fetch_retail_chunk retail_down_list ''Serum'' = Inl TransportFailure
   \<and> fetch_brand_editorial_chunk retail_down_list ''Serum''
       = Inr (JObj [(''platforms'', JObj [(''editorial'', JStr ''praised'')])])
   \<and> fetch_influencer_chunk retail_down_list ''Serum''
       = Inr (JObj [(''platforms'', JArr [JStr ''youtube''])])
   \<and> fetch_summary_chunk retail_down_list ''Serum''
        (all_platform_data
           (collect_chunks retail_down_list ''Serum'' [''retail'', ''editorial'', ''influencer'']))
       = Inr (JObj [(''citations'', JObj [(''vogue'', JStr ''v'')])])
   \<and> fetch_product_snapshot_parallel retail_down_list [''retail'', ''editorial'', ''influencer'']
        ''Serum''
       = Inl UpdateValueError"
  by (simp add: fetch_product_snapshot_parallel_def merge_parallel_results_def merge_chunk_def
      dict_get_def dict_update_def update_pair_def collect_chunks_def parallel_tasks_def
      retail_down_list_def fetch_retail_wrapper_def fetch_editorial_wrapper_def
      fetch_influencer_wrapper_def all_platform_data_def chunk_or_empty_def
      AList.update.simps Let_def)

text \<open>
  Claim C4, amended: let every segment either raise or return a dictionary whose entry
  \<open>platforms\<close> is absent, a dictionary or a value that is false, in any order of
  completion, and let the summary return a dictionary. Then the aggregation returns a
  snapshot instead of raising; a segment that raised stands in \<open>chunk_results\<close> as the
  empty dictionary; and the platforms of the snapshot are the entries of the retail, the
  editorial and the influencer segment, a later segment writing over an earlier one on
  the same key, with no entry for a segment that raised. So with exactly one segment
  down, the entries of the other two are there.
\<close>

theorem parallel_degrades_failed_segment:
  assumes "set completion = {''retail'', ''editorial'', ''influencer''}"
    and "segment_shape (fetch_retail_chunk fs product_name)"
    and "segment_shape (fetch_brand_editorial_chunk fs product_name)"
    and "segment_shape (fetch_influencer_chunk fs product_name)"
    and "fetch_summary_chunk fs product_name
           (all_platform_data (collect_chunks fs product_name completion)) = Inr (JObj sd)"
  shows "\<exists>final.
      fetch_product_snapshot_parallel fs completion product_name = Inr final
    \<and> map_of (fd_platforms final)
        = map_of (rev (segment_platforms (fetch_retail_chunk fs product_name)))
         ++ map_of (rev (segment_platforms (fetch_brand_editorial_chunk fs product_name)))
         ++ map_of (rev (segment_platforms (fetch_influencer_chunk fs product_name)))
    \<and> fst ` set (fd_platforms final)
        = fst ` set (segment_platforms (fetch_retail_chunk fs product_name))
         \<union> fst ` set (segment_platforms (fetch_brand_editorial_chunk fs product_name))
         \<union> fst ` set (segment_platforms (fetch_influencer_chunk fs product_name))
    \<and> ((\<exists>ex. fetch_retail_chunk fs product_name = Inl ex) \<longrightarrow>
          map_of (collect_chunks fs product_name completion) ''retail'' = Some (JObj []))
    \<and> ((\<exists>ex. fetch_brand_editorial_chunk fs product_name = Inl ex) \<longrightarrow>
          map_of (collect_chunks fs product_name completion) ''editorial'' = Some (JObj []))
    \<and> ((\<exists>ex. fetch_influencer_chunk fs product_name = Inl ex) \<longrightarrow>
          map_of (collect_chunks fs product_name completion) ''influencer'' = Some (JObj []))"
proof -
  let ?cr = "collect_chunks fs product_name completion"
  note look = collect_chunks_lookup [OF assms(1), of fs product_name]
  have r: "map_of ?cr ''retail''
      = Some (case fetch_retail_chunk fs product_name of Inl ex \<Rightarrow> JObj [] | Inr d \<Rightarrow> d)"
    and e: "map_of ?cr ''editorial''
      = Some (case fetch_brand_editorial_chunk fs product_name of Inl ex \<Rightarrow> JObj [] | Inr d \<Rightarrow> d)"
    and i: "map_of ?cr ''influencer''
      = Some (case fetch_influencer_chunk fs product_name of Inl ex \<Rightarrow> JObj [] | Inr d \<Rightarrow> d)"
    using look
    by (simp_all add: fetch_retail_wrapper_def fetch_editorial_wrapper_def
        fetch_influencer_wrapper_def)
  from merge_chunk_wrapped [OF r assms(2), of "[]"] obtain p1 where
    p1: "merge_chunk ?cr ''retail'' [] = Inr p1"
    and m1: "map_of p1 = map_of [] ++ map_of (rev (segment_platforms (fetch_retail_chunk fs product_name)))"
    by auto
  from merge_chunk_wrapped [OF e assms(3), of p1] obtain p2 where
    p2: "merge_chunk ?cr ''editorial'' p1 = Inr p2"
    and m2: "map_of p2 = map_of p1
        ++ map_of (rev (segment_platforms (fetch_brand_editorial_chunk fs product_name)))"
    by auto
  from merge_chunk_wrapped [OF i assms(4), of p2] obtain p3 where
    p3: "merge_chunk ?cr ''influencer'' p2 = Inr p3"
    and m3: "map_of p3 = map_of p2
        ++ map_of (rev (segment_platforms (fetch_influencer_chunk fs product_name)))"
    by auto
  define final where "final =
     \<lparr>fd_product_identity = (case map_of sd ''product_identity'' of None \<Rightarrow> JObj [] | Some v \<Rightarrow> v),
      fd_platforms = p3,
      fd_specifications = (case map_of sd ''specifications'' of None \<Rightarrow> JObj [] | Some v \<Rightarrow> v),
      fd_summarized_review = (case map_of sd ''summarized_review'' of None \<Rightarrow> JObj [] | Some v \<Rightarrow> v),
      fd_citations = (case map_of sd ''citations'' of None \<Rightarrow> JObj [] | Some v \<Rightarrow> v)\<rparr>"
  have run: "fetch_product_snapshot_parallel fs completion product_name = Inr final"
    using assms(5) p1 p2 p3
    by (simp add: fetch_product_snapshot_parallel_def merge_parallel_results_def dict_get_def
        final_def Let_def)
  have pl: "fd_platforms final = p3"
    by (simp add: final_def)
  have mm: "map_of p3 = map_of (rev (segment_platforms (fetch_retail_chunk fs product_name)))
         ++ map_of (rev (segment_platforms (fetch_brand_editorial_chunk fs product_name)))
         ++ map_of (rev (segment_platforms (fetch_influencer_chunk fs product_name)))"
    using m1 m2 m3 by simp
  have "dom (map_of p3) = fst ` set p3"
    by (rule dom_map_of_conv_image_fst)
  with mm have keys: "fst ` set p3 = fst ` set (segment_platforms (fetch_retail_chunk fs product_name))
         \<union> fst ` set (segment_platforms (fetch_brand_editorial_chunk fs product_name))
         \<union> fst ` set (segment_platforms (fetch_influencer_chunk fs product_name))"
    by (simp add: dom_map_of_conv_image_fst Un_commute Un_left_commute)
  have down: "(\<exists>ex. fetch_retail_chunk fs product_name = Inl ex) \<longrightarrow>
          map_of ?cr ''retail'' = Some (JObj [])"
     "(\<exists>ex. fetch_brand_editorial_chunk fs product_name = Inl ex) \<longrightarrow>
          map_of ?cr ''editorial'' = Some (JObj [])"
     "(\<exists>ex. fetch_influencer_chunk fs product_name = Inl ex) \<longrightarrow>
          map_of ?cr ''influencer'' = Some (JObj [])"
    using r e i by auto
  from run mm keys down show ?thesis
    unfolding pl [symmetric] by (intro exI [of _ final] conjI)
qed

theorem parallel_degrades_failed_segment_witness:
  "fetch_retail_chunk retail_down ''Serum'' = Inl TransportFailure
   \<and> set [''influencer'', ''retail'', ''editorial''] = {''retail'', ''editorial'', ''influencer''}
   \<and> fetch_product_snapshot_parallel retail_down [''influencer'', ''retail'', ''editorial''] ''Serum''
       = Inr \<lparr>fd_product_identity = JObj [],
              fd_platforms = [(JStr ''editorial'', JStr ''praised''), (JStr ''youtube'', JStr ''liked'')],
              fd_specifications = JObj [],
              fd_summarized_review = JObj [],
              fd_citations = JObj [(''vogue'', JStr ''v'')]\<rparr>
   \<and> map_of (collect_chunks retail_down ''Serum'' [''influencer'', ''retail'', ''editorial'']) ''retail''
       = Some (JObj [])
   \<and> (\<exists>final.
        fetch_product_snapshot_parallel retail_down [''influencer'', ''retail'', ''editorial''] ''Serum''
          = Inr final
      \<and> fst ` set (fd_platforms final) = {JStr ''editorial'', JStr ''youtube''})"
proof -
  let ?order = "[''influencer'', ''retail'', ''editorial'']"
  have h1: "set ?order = {''retail'', ''editorial'', ''influencer''}"
    by auto
  have h2: "segment_shape (fetch_retail_chunk retail_down ''Serum'')"
    and h3: "segment_shape (fetch_brand_editorial_chunk retail_down ''Serum'')"
    and h4: "segment_shape (fetch_influencer_chunk retail_down ''Serum'')"
    by (simp_all add: retail_down_def segment_shape_def)
  have h5: "fetch_summary_chunk retail_down ''Serum''
      (all_platform_data (collect_chunks retail_down ''Serum'' ?order))
      = Inr (JObj [(''citations'', JObj [(''vogue'', JStr ''v'')])])"
    by (simp add: retail_down_def)
  have down: "fetch_retail_chunk retail_down ''Serum'' = Inl TransportFailure"
    by (simp add: retail_down_def)
  from parallel_degrades_failed_segment [OF h1 h2 h3 h4 h5] obtain final where
    run: "fetch_product_snapshot_parallel retail_down ?order ''Serum'' = Inr final"
    and keys: "fst ` set (fd_platforms final)
       = fst ` set (segment_platforms (fetch_retail_chunk retail_down ''Serum''))
         \<union> fst ` set (segment_platforms (fetch_brand_editorial_chunk retail_down ''Serum''))
         \<union> fst ` set (segment_platforms (fetch_influencer_chunk retail_down ''Serum''))"
    and empty: "(\<exists>ex. fetch_retail_chunk retail_down ''Serum'' = Inl ex) \<longrightarrow>
          map_of (collect_chunks retail_down ''Serum'' ?order) ''retail'' = Some (JObj [])"
    by blast
  from keys have keys': "fst ` set (fd_platforms final) = {JStr ''editorial'', JStr ''youtube''}"
    by (auto simp add: retail_down_def segment_platforms_def)
  from empty down have e: "map_of (collect_chunks retail_down ''Serum'' ?order) ''retail'' = Some (JObj [])"
    by blast
  have whole: "fetch_product_snapshot_parallel retail_down ?order ''Serum''
       = Inr \<lparr>fd_product_identity = JObj [],
              fd_platforms = [(JStr ''editorial'', JStr ''praised''), (JStr ''youtube'', JStr ''liked'')],
              fd_specifications = JObj [],
              fd_summarized_review = JObj [],
              fd_citations = JObj [(''vogue'', JStr ''v'')]\<rparr>"
    by (simp add: fetch_product_snapshot_parallel_def merge_parallel_results_def merge_chunk_def
        dict_get_def dict_update_def collect_chunks_def parallel_tasks_def retail_down_def
        fetch_retail_wrapper_def fetch_editorial_wrapper_def fetch_influencer_wrapper_def
        all_platform_data_def chunk_or_empty_def AList.update.simps Let_def)
  from run keys' have "\<exists>final.
        fetch_product_snapshot_parallel retail_down ?order ''Serum'' = Inr final
      \<and> fst ` set (fd_platforms final) = {JStr ''editorial'', JStr ''youtube''}"
    by (intro exI [of _ final] conjI)
  with down h1 whole e show ?thesis by (intro conjI)
qed

end
